theory Spec2Isabelle
  imports Main
begin

section \<open>Formula trees\<close>

text \<open>
  A \<^verbatim>\<open>Formula\<close> object of \<^verbatim>\<open>propositions/syntax.py\<close> carries a string \<^verbatim>\<open>root\<close> and,
  depending on how it was built, the attributes \<^verbatim>\<open>first\<close> and \<^verbatim>\<open>second\<close>. The three
  constructors below are the three shapes an object can have: no child, one child, two
  children. The root stays a string, because \<^verbatim>\<open>operators.py\<close> dispatches on the string.
\<close>

datatype Formula =
    Leaf string
  | Unary string Formula
  | Binary string Formula Formula

text \<open>
  Python raises \<^verbatim>\<open>ValueError('Unknown operator: ' + root)\<close> in the last line of every
  converter, and \<^verbatim>\<open>AttributeError\<close> when an attribute that the object does not have is
  read.
\<close>

datatype error = ValueError string | AttributeError

fun root :: "Formula \<Rightarrow> string" where
  "root (Leaf r) = r"
| "root (Unary r x) = r"
| "root (Binary r x y) = r"

fun first :: "Formula \<Rightarrow> error + Formula" where
  "first (Leaf r) = Inl AttributeError"
| "first (Unary r x) = Inr x"
| "first (Binary r x y) = Inr x"

fun second :: "Formula \<Rightarrow> error + Formula" where
  "second (Leaf r) = Inl AttributeError"
| "second (Unary r x) = Inl AttributeError"
| "second (Binary r x y) = Inr y"

fun formula_size :: "Formula \<Rightarrow> nat" where
  "formula_size (Leaf r) = 1"
| "formula_size (Unary r x) = 1 + formula_size x"
| "formula_size (Binary r x y) = 1 + formula_size x + formula_size y"

fun depth :: "Formula \<Rightarrow> nat" where
  "depth (Leaf r) = 0"
| "depth (Unary r x) = 1 + depth x"
| "depth (Binary r x y) = 1 + max (depth x) (depth y)"

subsection \<open>The symbol classes of the syntax layer\<close>

text \<open>
  Modelled from the spec: \<^verbatim>\<open>is_variable\<close>, \<^verbatim>\<open>is_constant\<close>, \<^verbatim>\<open>is_unary\<close> and
  \<^verbatim>\<open>is_binary\<close> live in \<^verbatim>\<open>propositions/syntax.py\<close>, which is not part of the sources at
  hand. The spec gives the classes: a variable name "starts [with a] lowercase letter,
  followed by letters/digits"; a constant is \<^verbatim>\<open>T\<close> or \<^verbatim>\<open>F\<close>; the only unary operator is
  \<^verbatim>\<open>~\<close>; the binary operators are and, or, implies, xor, iff, nand, nor, written
  \<^verbatim>\<open>&\<close>, \<^verbatim>\<open>|\<close>, \<^verbatim>\<open>->\<close>, \<^verbatim>\<open>+\<close>, \<^verbatim>\<open><->\<close>, \<^verbatim>\<open>-&\<close>, \<^verbatim>\<open>-|\<close> in \<^verbatim>\<open>operators.py\<close>.
\<close>

definition is_lower :: "char \<Rightarrow> bool" where
  "is_lower c = (c \<in> set ''abcdefghijklmnopqrstuvwxyz'')"

definition is_alnum :: "char \<Rightarrow> bool" where
  "is_alnum c = (c \<in> set ''abcdefghijklmnopqrstuvwxyzABCDEFGHIJKLMNOPQRSTUVWXYZ0123456789'')"

fun is_variable :: "string \<Rightarrow> bool" where
  "is_variable [] = False"
| "is_variable (c # cs) = (is_lower c \<and> list_all is_alnum cs)"

definition is_constant :: "string \<Rightarrow> bool" where
  "is_constant s = (s = ''T'' \<or> s = ''F'')"

definition is_unary :: "string \<Rightarrow> bool" where
  "is_unary s = (s = ''~'')"

definition is_binary :: "string \<Rightarrow> bool" where
  "is_binary s = (s \<in> set [''&'', ''|'', ''->'', ''+'', ''<->'', ''-&'', ''-|''])"

text \<open>
  A tree is well formed when every node's symbol belongs to the class of the node's
  arity: what the constructor of \<^verbatim>\<open>Formula\<close> asserts.
\<close>

fun well_formed :: "Formula \<Rightarrow> bool" where
  "well_formed (Leaf r) = (is_variable r \<or> is_constant r)"
| "well_formed (Unary r x) = (is_unary r \<and> well_formed x)"
| "well_formed (Binary r x y) = (is_binary r \<and> well_formed x \<and> well_formed y)"

section \<open>The base reducer\<close>

function to_not_and_or :: "Formula \<Rightarrow> error + Formula" where
  "to_not_and_or formula =
    (if is_variable (root formula) then Inr formula
     else if is_constant (root formula) then
       (let p = Leaf ''p'' in
        if root formula = ''T'' then Inr (Binary ''|'' p (Unary ''~'' p))
        else Inr (Binary ''&'' p (Unary ''~'' p)))
     else if is_unary (root formula) then
       (case first formula of Inl e \<Rightarrow> Inl e | Inr x \<Rightarrow>
        (case to_not_and_or x of Inl e \<Rightarrow> Inl e | Inr a \<Rightarrow> Inr (Unary ''~'' a)))
     else
       (case first formula of Inl e \<Rightarrow> Inl e | Inr x \<Rightarrow>
        (case to_not_and_or x of Inl e \<Rightarrow> Inl e | Inr a \<Rightarrow>
        (case second formula of Inl e \<Rightarrow> Inl e | Inr y \<Rightarrow>
        (case to_not_and_or y of Inl e \<Rightarrow> Inl e | Inr b \<Rightarrow>
          if root formula = ''&'' \<or> root formula = ''|'' then
            Inr (Binary (root formula) a b)
          else if root formula = ''->'' then
            Inr (Binary ''|'' (Unary ''~'' a) b)
          else if root formula = ''+'' then
            Inr (Binary ''|''
                   (Binary ''&'' a (Unary ''~'' b))
                   (Binary ''&'' (Unary ''~'' a) b))
          else if root formula = ''<->'' then
            Inr (Binary ''|''
                   (Binary ''&'' a b)
                   (Binary ''&'' (Unary ''~'' a) (Unary ''~'' b)))
          else if root formula = ''-&'' then
            Inr (Unary ''~'' (Binary ''&'' a b))
          else if root formula = ''-|'' then
            Inr (Unary ''~'' (Binary ''|'' a b))
          else Inl (ValueError (''Unknown operator: '' @ root formula)))))))"
  by pat_completeness auto
termination
  by (relation "measure formula_size") (auto elim: first.elims second.elims)

declare to_not_and_or.simps [simp del]

section \<open>The second passes\<close>

text \<open>
  Each of the other four entry points first calls an earlier reducer and then runs its
  own nested function \<^verbatim>\<open>conv\<close> over the result. The nested functions are named after
  the entry point that owns them.
\<close>

function to_not_and_conv :: "Formula \<Rightarrow> error + Formula" where
  "to_not_and_conv g =
    (if is_variable (root g) then Inr g
     else if is_constant (root g) then Inr g
     else if is_unary (root g) then
       (case first g of Inl e \<Rightarrow> Inl e | Inr x \<Rightarrow>
        (case to_not_and_conv x of Inl e \<Rightarrow> Inl e | Inr a \<Rightarrow> Inr (Unary ''~'' a)))
     else if root g = ''&'' then
       (case first g of Inl e \<Rightarrow> Inl e | Inr x \<Rightarrow>
        (case to_not_and_conv x of Inl e \<Rightarrow> Inl e | Inr a \<Rightarrow>
        (case second g of Inl e \<Rightarrow> Inl e | Inr y \<Rightarrow>
        (case to_not_and_conv y of Inl e \<Rightarrow> Inl e | Inr b \<Rightarrow>
          Inr (Binary ''&'' a b)))))
     else if root g = ''|'' then
       (case first g of Inl e \<Rightarrow> Inl e | Inr x \<Rightarrow>
        (case to_not_and_conv x of Inl e \<Rightarrow> Inl e | Inr left \<Rightarrow>
        (case second g of Inl e \<Rightarrow> Inl e | Inr y \<Rightarrow>
        (case to_not_and_conv y of Inl e \<Rightarrow> Inl e | Inr right \<Rightarrow>
          Inr (Unary ''~''
                 (Binary ''&''
                    (Unary ''~'' left)
                    (Unary ''~'' right)))))))
     else Inl (ValueError (''Unknown operator: '' @ root g)))"
  by pat_completeness auto
termination
  by (relation "measure formula_size") (auto elim: first.elims second.elims)

declare to_not_and_conv.simps [simp del]

definition to_not_and :: "Formula \<Rightarrow> error + Formula" where
  "to_not_and formula =
    (case to_not_and_or formula of Inl e \<Rightarrow> Inl e | Inr f \<Rightarrow> to_not_and_conv f)"

function to_nand_conv :: "Formula \<Rightarrow> error + Formula" where
  "to_nand_conv g =
    (if is_variable (root g) then Inr g
     else if is_constant (root g) then Inr g
     else if is_unary (root g) then
       (case first g of Inl e \<Rightarrow> Inl e | Inr g1 \<Rightarrow>
        (case to_nand_conv g1 of Inl e \<Rightarrow> Inl e | Inr x \<Rightarrow>
          Inr (Binary ''-&'' x x)))
     else if root g = ''&'' then
       (case first g of Inl e \<Rightarrow> Inl e | Inr g1 \<Rightarrow>
        (case to_nand_conv g1 of Inl e \<Rightarrow> Inl e | Inr x \<Rightarrow>
        (case second g of Inl e \<Rightarrow> Inl e | Inr g2 \<Rightarrow>
        (case to_nand_conv g2 of Inl e \<Rightarrow> Inl e | Inr y \<Rightarrow>
          (let t = Binary ''-&'' x y in Inr (Binary ''-&'' t t))))))
     else Inl (ValueError (''Unknown operator: '' @ root g)))"
  by pat_completeness auto
termination
  by (relation "measure formula_size") (auto elim: first.elims second.elims)

declare to_nand_conv.simps [simp del]

definition to_nand :: "Formula \<Rightarrow> error + Formula" where
  "to_nand formula =
    (case to_not_and formula of Inl e \<Rightarrow> Inl e | Inr f \<Rightarrow> to_nand_conv f)"

function to_implies_not_conv :: "Formula \<Rightarrow> error + Formula" where
  "to_implies_not_conv g =
    (if is_variable (root g) then Inr g
     else if is_constant (root g) then Inr g
     else if is_unary (root g) then
       (case first g of Inl e \<Rightarrow> Inl e | Inr x \<Rightarrow>
        (case to_implies_not_conv x of Inl e \<Rightarrow> Inl e | Inr a \<Rightarrow> Inr (Unary ''~'' a)))
     else
       (case first g of Inl e \<Rightarrow> Inl e | Inr x \<Rightarrow>
        (case to_implies_not_conv x of Inl e \<Rightarrow> Inl e | Inr a \<Rightarrow>
        (case second g of Inl e \<Rightarrow> Inl e | Inr y \<Rightarrow>
        (case to_implies_not_conv y of Inl e \<Rightarrow> Inl e | Inr b \<Rightarrow>
          if root g = ''|'' then
            Inr (Binary ''->'' (Unary ''~'' a) b)
          else if root g = ''&'' then
            Inr (Unary ''~'' (Binary ''->'' a (Unary ''~'' b)))
          else Inl (ValueError (''Unknown operator: '' @ root g)))))))"
  by pat_completeness auto
termination
  by (relation "measure formula_size") (auto elim: first.elims second.elims)

declare to_implies_not_conv.simps [simp del]

definition to_implies_not :: "Formula \<Rightarrow> error + Formula" where
  "to_implies_not formula =
    (case to_not_and_or formula of Inl e \<Rightarrow> Inl e | Inr f \<Rightarrow> to_implies_not_conv f)"

function to_implies_false_conv :: "Formula \<Rightarrow> error + Formula" where
  "to_implies_false_conv g =
    (if is_variable (root g) then Inr g
     else if is_constant (root g) then
       (if root g = ''F'' then Inr g
        else Inr (Binary ''->'' (Leaf ''F'') (Leaf ''F'')))
     else if is_unary (root g) then
       (case first g of Inl e \<Rightarrow> Inl e | Inr g1 \<Rightarrow>
        (case to_implies_false_conv g1 of Inl e \<Rightarrow> Inl e | Inr x \<Rightarrow>
          Inr (Binary ''->'' x (Leaf ''F''))))
     else
       (case first g of Inl e \<Rightarrow> Inl e | Inr x \<Rightarrow>
        (case to_implies_false_conv x of Inl e \<Rightarrow> Inl e | Inr a \<Rightarrow>
        (case second g of Inl e \<Rightarrow> Inl e | Inr y \<Rightarrow>
        (case to_implies_false_conv y of Inl e \<Rightarrow> Inl e | Inr b \<Rightarrow>
          if root g = ''|'' then
            Inr (Binary ''->'' (Binary ''->'' a (Leaf ''F'')) b)
          else if root g = ''&'' then
            Inr (Binary ''->''
                   (Binary ''->'' a (Binary ''->'' b (Leaf ''F'')))
                   (Leaf ''F''))
          else Inl (ValueError (''Unknown operator: '' @ root g)))))))"
  by pat_completeness auto
termination
  by (relation "measure formula_size") (auto elim: first.elims second.elims)

declare to_implies_false_conv.simps [simp del]

definition to_implies_false :: "Formula \<Rightarrow> error + Formula" where
  "to_implies_false formula =
    (case to_not_and_or formula of Inl e \<Rightarrow> Inl e | Inr f \<Rightarrow> to_implies_false_conv f)"

section \<open>Truth-table semantics\<close>

text \<open>
  Modelled from the spec: evaluation belongs to \<^verbatim>\<open>propositions/semantics.py\<close>, which is
  not part of the sources at hand; the spec uses it only to state correctness. A model is
  a dictionary from variable names to truth values. Evaluation is the usual truth-table
  reading of the ten symbols; it has no value (\<open>None\<close>) when a variable of the formula
  is missing from the model or when a node carries a symbol that is not of its arity.
\<close>

fun variables :: "Formula \<Rightarrow> string set" where
  "variables (Leaf r) = (if is_variable r then {r} else {})"
| "variables (Unary r x) = variables x"
| "variables (Binary r x y) = variables x \<union> variables y"

definition binary_truth :: "string \<Rightarrow> bool \<Rightarrow> bool \<Rightarrow> bool option" where
  "binary_truth r a b =
    (if r = ''&'' then Some (a \<and> b)
     else if r = ''|'' then Some (a \<or> b)
     else if r = ''->'' then Some (if a then b else True)
     else if r = ''+'' then Some (a \<noteq> b)
     else if r = ''<->'' then Some (a = b)
     else if r = ''-&'' then Some (\<not> (a \<and> b))
     else if r = ''-|'' then Some (\<not> (a \<or> b))
     else None)"

fun evaluate :: "Formula \<Rightarrow> (string \<rightharpoonup> bool) \<Rightarrow> bool option" where
  "evaluate (Leaf r) m =
    (if is_constant r then Some (r = ''T'')
     else if is_variable r then m r
     else None)"
| "evaluate (Unary r x) m =
    (if is_unary r then
       (case evaluate x m of None \<Rightarrow> None | Some a \<Rightarrow> Some (\<not> a))
     else None)"
| "evaluate (Binary r x y) m =
    (case evaluate x m of None \<Rightarrow> None | Some a \<Rightarrow>
     (case evaluate y m of None \<Rightarrow> None | Some b \<Rightarrow> binary_truth r a b))"

subsection \<open>Reading a result\<close>

text \<open>
  A call either raises or returns a tree. The three functions below read a property of
  the returned tree and have no value, or are false, when the call raised.
\<close>

definition evaluate_result :: "error + Formula \<Rightarrow> (string \<rightharpoonup> bool) \<Rightarrow> bool option" where
  "evaluate_result res m = (case res of Inl e \<Rightarrow> None | Inr g \<Rightarrow> evaluate g m)"

definition output_size :: "error + Formula \<Rightarrow> nat option" where
  "output_size res = (case res of Inl e \<Rightarrow> None | Inr g \<Rightarrow> Some (formula_size g))"

definition size_at_most :: "error + Formula \<Rightarrow> nat \<Rightarrow> bool" where
  "size_at_most res n = (case res of Inl e \<Rightarrow> False | Inr g \<Rightarrow> formula_size g \<le> n)"

section \<open>Predicates on trees\<close>

text \<open>
  \<open>operators_within S f\<close>: the structural scan of the spec. Every node of \<open>f\<close> is a
  variable or carries a symbol of \<open>S\<close>, in the class of the node's arity. A constant
  passes the scan only when it is listed in \<open>S\<close>.
\<close>

fun operators_within :: "string set \<Rightarrow> Formula \<Rightarrow> bool" where
  "operators_within S (Leaf r) = (is_variable r \<or> (is_constant r \<and> r \<in> S))"
| "operators_within S (Unary r x) = (is_unary r \<and> r \<in> S \<and> operators_within S x)"
| "operators_within S (Binary r x y) =
    (is_binary r \<and> r \<in> S \<and> operators_within S x \<and> operators_within S y)"

text \<open>
  \<open>contains_constant f\<close>: some node of \<open>f\<close> has a root for which \<^verbatim>\<open>is_constant\<close> answers
  true. The nested functions test \<^verbatim>\<open>is_constant(g.root)\<close> at every node they visit, and
  they visit exactly the nodes of their argument.
\<close>

fun contains_constant :: "Formula \<Rightarrow> bool" where
  "contains_constant (Leaf r) = is_constant r"
| "contains_constant (Unary r x) = (is_constant r \<or> contains_constant x)"
| "contains_constant (Binary r x y) =
    (is_constant r \<or> contains_constant x \<or> contains_constant y)"

text \<open>
  The data model's invariant: the symbol of a node determines its arity. The constructor
  of \<^verbatim>\<open>Formula\<close> gives no child to a variable or a constant, one child to \<^verbatim>\<open>~\<close> and two
  children to every other symbol, and the converters dispatch the same way. A tree that
  keeps the invariant can still carry a two-child node whose symbol is none of the seven
  binary operators; \<open>unknown_operators\<close> lists these symbols in the order in which the
  converters, which convert both children before they look at the symbol, meet them.
\<close>

fun arity_ok :: "Formula \<Rightarrow> bool" where
  "arity_ok (Leaf r) = (is_variable r \<or> is_constant r)"
| "arity_ok (Unary r x) = (is_unary r \<and> arity_ok x)"
| "arity_ok (Binary r x y) =
    (\<not> is_variable r \<and> \<not> is_constant r \<and> \<not> is_unary r \<and> arity_ok x \<and> arity_ok y)"

fun unknown_operators :: "Formula \<Rightarrow> string list" where
  "unknown_operators (Leaf r) = []"
| "unknown_operators (Unary r x) = unknown_operators x"
| "unknown_operators (Binary r x y) =
    unknown_operators x @ unknown_operators y @ (if is_binary r then [] else [r])"

text \<open>
  A family of inputs: \<open>xor_chain d\<close> is \<^verbatim>\<open>(p+(p+(...+p)))\<close> with \<open>d\<close> operators. The
  base reducer copies both converted children of a \<^verbatim>\<open>+\<close> node, so its output doubles at
  every level of the chain.
\<close>

fun xor_chain :: "nat \<Rightarrow> Formula" where
  "xor_chain 0 = Leaf ''p''"
| "xor_chain (Suc d) = Binary ''+'' (Leaf ''p'') (xor_chain d)"

section \<open>Facts about the symbol classes\<close>

lemma is_variable_p: "is_variable ''p''"
  by (simp add: is_lower_def)

lemma constant_not_variable: "is_constant r \<Longrightarrow> \<not> is_variable r"
  by (auto simp: is_constant_def is_lower_def)

lemma unary_not_leaf: "is_unary r \<Longrightarrow> \<not> is_variable r \<and> \<not> is_constant r"
  by (auto simp: is_unary_def is_constant_def is_lower_def)

lemma binary_not_other:
  "is_binary r \<Longrightarrow> \<not> is_variable r \<and> \<not> is_constant r \<and> \<not> is_unary r"
  by (auto simp: is_binary_def is_unary_def is_constant_def is_lower_def)

declare is_variable.simps [simp del]

lemma well_formed_iff: "well_formed f \<longleftrightarrow> arity_ok f \<and> unknown_operators f = []"
  by (induction f) (auto simp: unary_not_leaf binary_not_other)

lemma within_well_formed: "operators_within S f \<Longrightarrow> well_formed f"
  by (induction f) auto

lemma within_no_constant:
  "operators_within S f \<Longrightarrow> ''T'' \<notin> S \<Longrightarrow> ''F'' \<notin> S \<Longrightarrow> \<not> contains_constant f"
  by (induction f) (auto simp: unary_not_leaf binary_not_other constant_not_variable is_constant_def)

section \<open>The base reducer, node by node\<close>

lemma to_not_and_or_Leaf:
  "to_not_and_or (Leaf r) =
    (if is_variable r then Inr (Leaf r)
     else if is_constant r then
       (if r = ''T'' then Inr (Binary ''|'' (Leaf ''p'') (Unary ''~'' (Leaf ''p'')))
        else Inr (Binary ''&'' (Leaf ''p'') (Unary ''~'' (Leaf ''p''))))
     else Inl AttributeError)"
  by (subst to_not_and_or.simps) (simp add: Let_def)

lemma to_not_and_or_Unary:
  "is_unary r \<Longrightarrow> to_not_and_or (Unary r x) =
    (case to_not_and_or x of Inl e \<Rightarrow> Inl e | Inr a \<Rightarrow> Inr (Unary ''~'' a))"
  by (subst to_not_and_or.simps) (simp add: unary_not_leaf)

lemma to_not_and_or_Binary:
  "\<not> is_variable r \<Longrightarrow> \<not> is_constant r \<Longrightarrow> \<not> is_unary r \<Longrightarrow>
   to_not_and_or (Binary r x y) =
    (case to_not_and_or x of Inl e \<Rightarrow> Inl e | Inr a \<Rightarrow>
     (case to_not_and_or y of Inl e \<Rightarrow> Inl e | Inr b \<Rightarrow>
        if r = ''&'' \<or> r = ''|'' then Inr (Binary r a b)
        else if r = ''->'' then Inr (Binary ''|'' (Unary ''~'' a) b)
        else if r = ''+'' then
          Inr (Binary ''|'' (Binary ''&'' a (Unary ''~'' b)) (Binary ''&'' (Unary ''~'' a) b))
        else if r = ''<->'' then
          Inr (Binary ''|'' (Binary ''&'' a b) (Binary ''&'' (Unary ''~'' a) (Unary ''~'' b)))
        else if r = ''-&'' then Inr (Unary ''~'' (Binary ''&'' a b))
        else if r = ''-|'' then Inr (Unary ''~'' (Binary ''|'' a b))
        else Inl (ValueError (''Unknown operator: '' @ r))))"
  by (subst to_not_and_or.simps) (simp split: sum.splits)

lemma nao_total: "well_formed f \<Longrightarrow> \<exists>g. to_not_and_or f = Inr g"
proof (induction f)
  case (Leaf r)
  then show ?case by (auto simp: to_not_and_or_Leaf constant_not_variable)
next
  case (Unary r x)
  then show ?case by (auto simp: to_not_and_or_Unary)
next
  case (Binary r x y)
  then show ?case by (auto simp: to_not_and_or_Binary binary_not_other is_binary_def)
qed

lemma nao_within:
  "well_formed f \<Longrightarrow> to_not_and_or f = Inr g \<Longrightarrow> operators_within {''~'', ''&'', ''|''} g"
proof (induction f arbitrary: g)
  case (Leaf r)
  then show ?case
    by (auto simp: to_not_and_or_Leaf is_variable_p is_unary_def is_binary_def split: if_splits)
next
  case (Unary r x)
  then show ?case by (auto simp: to_not_and_or_Unary is_unary_def split: sum.splits)
next
  case (Binary r x y)
  then show ?case
    by (auto simp: to_not_and_or_Binary binary_not_other is_binary_def is_unary_def
        split: sum.splits)
qed

lemma nao_sem:
  "well_formed f \<Longrightarrow> to_not_and_or f = Inr g \<Longrightarrow> variables f \<subseteq> dom m \<Longrightarrow> ''p'' \<in> dom m'
    \<Longrightarrow> \<forall>v\<in>variables f. m' v = m v
    \<Longrightarrow> evaluate g m' = evaluate f m \<and> evaluate f m \<noteq> None"
proof (induction f arbitrary: g)
  case (Leaf r)
  then show ?case
    by (auto simp: to_not_and_or_Leaf is_variable_p is_unary_def binary_truth_def
        constant_not_variable is_constant_def split: if_splits)
next
  case (Unary r x)
  then show ?case by (auto simp: to_not_and_or_Unary is_unary_def split: sum.splits)
next
  case (Binary r x y)
  then show ?case
    by (auto simp: to_not_and_or_Binary binary_not_other is_binary_def is_unary_def
        binary_truth_def split: sum.splits)
qed

lemma nao_fixed: "operators_within {''~'', ''&'', ''|''} f \<Longrightarrow> to_not_and_or f = Inr f"
proof (induction f)
  case (Leaf r)
  then show ?case by (auto simp: to_not_and_or_Leaf is_constant_def)
next
  case (Unary r x)
  then have "is_unary r" and r: "r = ''~''" and "to_not_and_or x = Inr x"
    by (simp_all add: is_unary_def)
  then show ?case by (simp add: to_not_and_or_Unary)
next
  case (Binary r x y)
  then have "is_binary r" and "r = ''&'' \<or> r = ''|''"
    and "to_not_and_or x = Inr x" and "to_not_and_or y = Inr y"
    by (auto simp: is_binary_def)
  then show ?case by (simp add: to_not_and_or_Binary binary_not_other)
qed

lemma nao_error:
  "arity_ok f \<Longrightarrow> unknown_operators f = r # rs \<Longrightarrow>
   to_not_and_or f = Inl (ValueError (''Unknown operator: '' @ r)) \<and> \<not> is_binary r"
proof (induction f arbitrary: r rs)
  case (Leaf s)
  then show ?case by simp
next
  case (Unary s x)
  then show ?case by (auto simp: to_not_and_or_Unary)
next
  case (Binary s x y)
  show ?case
  proof (cases "unknown_operators x")
    case (Cons u us)
    with Binary show ?thesis by (auto simp: to_not_and_or_Binary)
  next
    case Nil
    with Binary have "well_formed x" by (simp add: well_formed_iff)
    then obtain a where a: "to_not_and_or x = Inr a" using nao_total by blast
    show ?thesis
    proof (cases "unknown_operators y")
      case (Cons u us)
      with Binary Nil a show ?thesis by (auto simp: to_not_and_or_Binary)
    next
      case ynil: Nil
      with Binary have "well_formed y" by (simp add: well_formed_iff)
      then obtain b where b: "to_not_and_or y = Inr b" using nao_total by blast
      from Binary Nil ynil have "\<not> is_binary s" "r = s" by (auto split: if_splits)
      with Binary a b show ?thesis by (auto simp: to_not_and_or_Binary is_binary_def)
    qed
  qed
qed

section \<open>The second passes, node by node\<close>

lemma to_not_and_conv_Leaf:
  "is_variable r \<or> is_constant r \<Longrightarrow> to_not_and_conv (Leaf r) = Inr (Leaf r)"
  by (subst to_not_and_conv.simps) auto

lemma to_not_and_conv_Unary:
  "is_unary r \<Longrightarrow> to_not_and_conv (Unary r x) =
    (case to_not_and_conv x of Inl e \<Rightarrow> Inl e | Inr a \<Rightarrow> Inr (Unary ''~'' a))"
  by (subst to_not_and_conv.simps) (simp add: unary_not_leaf)

lemma to_not_and_conv_Binary:
  "is_binary r \<Longrightarrow> to_not_and_conv (Binary r x y) =
    (if r = ''&'' then
       (case to_not_and_conv x of Inl e \<Rightarrow> Inl e | Inr a \<Rightarrow>
        (case to_not_and_conv y of Inl e \<Rightarrow> Inl e | Inr b \<Rightarrow> Inr (Binary ''&'' a b)))
     else if r = ''|'' then
       (case to_not_and_conv x of Inl e \<Rightarrow> Inl e | Inr a \<Rightarrow>
        (case to_not_and_conv y of Inl e \<Rightarrow> Inl e | Inr b \<Rightarrow>
          Inr (Unary ''~'' (Binary ''&'' (Unary ''~'' a) (Unary ''~'' b)))))
     else Inl (ValueError (''Unknown operator: '' @ r)))"
  by (subst to_not_and_conv.simps) (simp add: binary_not_other split: sum.splits)

lemma to_nand_conv_Leaf:
  "is_variable r \<or> is_constant r \<Longrightarrow> to_nand_conv (Leaf r) = Inr (Leaf r)"
  by (subst to_nand_conv.simps) auto

lemma to_nand_conv_Unary:
  "is_unary r \<Longrightarrow> to_nand_conv (Unary r x) =
    (case to_nand_conv x of Inl e \<Rightarrow> Inl e | Inr a \<Rightarrow> Inr (Binary ''-&'' a a))"
  by (subst to_nand_conv.simps) (simp add: unary_not_leaf)

lemma to_nand_conv_Binary:
  "is_binary r \<Longrightarrow> to_nand_conv (Binary r x y) =
    (if r = ''&'' then
       (case to_nand_conv x of Inl e \<Rightarrow> Inl e | Inr a \<Rightarrow>
        (case to_nand_conv y of Inl e \<Rightarrow> Inl e | Inr b \<Rightarrow>
          Inr (Binary ''-&'' (Binary ''-&'' a b) (Binary ''-&'' a b))))
     else Inl (ValueError (''Unknown operator: '' @ r)))"
  by (subst to_nand_conv.simps) (simp add: binary_not_other Let_def split: sum.splits)

lemma to_implies_not_conv_Leaf:
  "is_variable r \<or> is_constant r \<Longrightarrow> to_implies_not_conv (Leaf r) = Inr (Leaf r)"
  by (subst to_implies_not_conv.simps) auto

lemma to_implies_not_conv_Unary:
  "is_unary r \<Longrightarrow> to_implies_not_conv (Unary r x) =
    (case to_implies_not_conv x of Inl e \<Rightarrow> Inl e | Inr a \<Rightarrow> Inr (Unary ''~'' a))"
  by (subst to_implies_not_conv.simps) (simp add: unary_not_leaf)

lemma to_implies_not_conv_Binary:
  "is_binary r \<Longrightarrow> to_implies_not_conv (Binary r x y) =
    (case to_implies_not_conv x of Inl e \<Rightarrow> Inl e | Inr a \<Rightarrow>
     (case to_implies_not_conv y of Inl e \<Rightarrow> Inl e | Inr b \<Rightarrow>
        if r = ''|'' then Inr (Binary ''->'' (Unary ''~'' a) b)
        else if r = ''&'' then Inr (Unary ''~'' (Binary ''->'' a (Unary ''~'' b)))
        else Inl (ValueError (''Unknown operator: '' @ r))))"
  by (subst to_implies_not_conv.simps) (simp add: binary_not_other split: sum.splits)

lemma to_implies_false_conv_Leaf:
  "to_implies_false_conv (Leaf r) =
    (if is_variable r then Inr (Leaf r)
     else if is_constant r then
       (if r = ''F'' then Inr (Leaf r) else Inr (Binary ''->'' (Leaf ''F'') (Leaf ''F'')))
     else Inl AttributeError)"
  by (subst to_implies_false_conv.simps) auto

lemma to_implies_false_conv_Unary:
  "is_unary r \<Longrightarrow> to_implies_false_conv (Unary r x) =
    (case to_implies_false_conv x of Inl e \<Rightarrow> Inl e
     | Inr a \<Rightarrow> Inr (Binary ''->'' a (Leaf ''F'')))"
  by (subst to_implies_false_conv.simps) (simp add: unary_not_leaf)

lemma to_implies_false_conv_Binary:
  "is_binary r \<Longrightarrow> to_implies_false_conv (Binary r x y) =
    (case to_implies_false_conv x of Inl e \<Rightarrow> Inl e | Inr a \<Rightarrow>
     (case to_implies_false_conv y of Inl e \<Rightarrow> Inl e | Inr b \<Rightarrow>
        if r = ''|'' then Inr (Binary ''->'' (Binary ''->'' a (Leaf ''F'')) b)
        else if r = ''&'' then
          Inr (Binary ''->'' (Binary ''->'' a (Binary ''->'' b (Leaf ''F''))) (Leaf ''F''))
        else Inl (ValueError (''Unknown operator: '' @ r))))"
  by (subst to_implies_false_conv.simps) (simp add: binary_not_other split: sum.splits)

subsection \<open>What each second pass returns on the output of the pass before it\<close>

lemma known_symbols:
  "is_unary ''~''" "is_binary ''&''" "is_binary ''|''" "is_binary ''->''" "is_binary ''-&''"
  "is_constant ''F''" "is_constant ''T''"
  by (simp_all add: is_unary_def is_binary_def is_constant_def)

lemma within_Leaf_variable:
  "operators_within S (Leaf r) \<Longrightarrow> ''T'' \<notin> S \<Longrightarrow> ''F'' \<notin> S \<Longrightarrow> is_variable r"
  by (auto simp: is_constant_def)

lemma within_nao_Binary:
  "operators_within {''~'', ''&'', ''|''} (Binary r x y) \<Longrightarrow> r = ''&'' \<or> r = ''|''"
  by (auto simp: is_binary_def)

lemma within_na_Binary:
  "operators_within {''~'', ''&''} (Binary r x y) \<Longrightarrow> r = ''&''"
  by (auto simp: is_binary_def)

lemma not_and_conv_within:
  "operators_within {''~'', ''&'', ''|''} g \<Longrightarrow>
   \<exists>h. to_not_and_conv g = Inr h \<and> operators_within {''~'', ''&''} h"
proof (induction g)
  case (Leaf r)
  then have "is_variable r" by (rule within_Leaf_variable) simp_all
  then show ?case by (simp add: to_not_and_conv_Leaf)
next
  case (Unary r x)
  then obtain a where "to_not_and_conv x = Inr a" "operators_within {''~'', ''&''} a"
    by auto
  with Unary.prems show ?case by (simp add: to_not_and_conv_Unary known_symbols)
next
  case (Binary r x y)
  then obtain a b where "to_not_and_conv x = Inr a" "operators_within {''~'', ''&''} a"
    "to_not_and_conv y = Inr b" "operators_within {''~'', ''&''} b"
    by auto
  moreover from Binary.prems have "r = ''&'' \<or> r = ''|''" by (rule within_nao_Binary)
  ultimately show ?case by (auto simp: to_not_and_conv_Binary known_symbols)
qed

lemma not_and_conv_sem:
  "operators_within {''~'', ''&'', ''|''} g \<Longrightarrow> to_not_and_conv g = Inr h \<Longrightarrow>
   evaluate h m = evaluate g m"
proof (induction g arbitrary: h)
  case (Leaf r)
  from Leaf.prems(1) have "is_variable r" by (rule within_Leaf_variable) simp_all
  with Leaf show ?case by (simp add: to_not_and_conv_Leaf)
next
  case (Unary r x)
  from Unary.prems(1) have r: "is_unary r" and wx: "operators_within {''~'', ''&'', ''|''} x"
    by simp_all
  from wx obtain a where a: "to_not_and_conv x = Inr a"
    using not_and_conv_within by blast
  from Unary.IH [OF wx a] have ea: "evaluate a m = evaluate x m" .
  from Unary.prems(2) r a have h: "h = Unary ''~'' a"
    by (simp add: to_not_and_conv_Unary)
  show ?case
    by (cases "evaluate x m") (simp_all add: h ea r known_symbols binary_truth_def)
next
  case (Binary r x y)
  from Binary.prems(1) have r: "is_binary r"
    and wx: "operators_within {''~'', ''&'', ''|''} x" and wy: "operators_within {''~'', ''&'', ''|''} y"
    by simp_all
  from Binary.prems(1) have rc: "r = ''&'' \<or> r = ''|''" by (rule within_nao_Binary)
  from wx obtain a where a: "to_not_and_conv x = Inr a"
    using not_and_conv_within by blast
  from wy obtain b where b: "to_not_and_conv y = Inr b"
    using not_and_conv_within by blast
  from Binary.IH(1) [OF wx a] have ea: "evaluate a m = evaluate x m" .
  from Binary.IH(2) [OF wy b] have eb: "evaluate b m = evaluate y m" .
  from rc show ?case
  proof
    assume c: "r = ''&''"
    with Binary.prems(2) a b have "h = Binary ''&'' a b"
      by (simp add: to_not_and_conv_Binary known_symbols)
    with c show ?thesis
      by (cases "evaluate x m"; cases "evaluate y m")
         (simp_all add: ea eb known_symbols binary_truth_def)
  next
    assume c: "r = ''|''"
    with Binary.prems(2) a b have "h = Unary ''~'' (Binary ''&'' (Unary ''~'' a) (Unary ''~'' b))"
      by (simp add: to_not_and_conv_Binary known_symbols)
    with c show ?thesis
      by (cases "evaluate x m"; cases "evaluate y m")
         (simp_all add: ea eb known_symbols binary_truth_def)
  qed
qed

lemma nand_conv_within:
  "operators_within {''~'', ''&''} g \<Longrightarrow>
   \<exists>h. to_nand_conv g = Inr h \<and> operators_within {''-&''} h"
proof (induction g)
  case (Leaf r)
  then have "is_variable r" by (rule within_Leaf_variable) simp_all
  then show ?case by (simp add: to_nand_conv_Leaf)
next
  case (Unary r x)
  then obtain a where "to_nand_conv x = Inr a" "operators_within {''-&''} a"
    by auto
  with Unary.prems show ?case by (simp add: to_nand_conv_Unary known_symbols)
next
  case (Binary r x y)
  then obtain a b where "to_nand_conv x = Inr a" "operators_within {''-&''} a"
    "to_nand_conv y = Inr b" "operators_within {''-&''} b"
    by auto
  moreover from Binary.prems have "r = ''&''" by (rule within_na_Binary)
  ultimately show ?case by (simp add: to_nand_conv_Binary known_symbols)
qed

lemma nand_conv_sem:
  "operators_within {''~'', ''&''} g \<Longrightarrow> to_nand_conv g = Inr h \<Longrightarrow>
   evaluate h m = evaluate g m"
proof (induction g arbitrary: h)
  case (Leaf r)
  from Leaf.prems(1) have "is_variable r" by (rule within_Leaf_variable) simp_all
  with Leaf show ?case by (simp add: to_nand_conv_Leaf)
next
  case (Unary r x)
  from Unary.prems(1) have r: "is_unary r" and wx: "operators_within {''~'', ''&''} x"
    by simp_all
  from wx obtain a where a: "to_nand_conv x = Inr a"
    using nand_conv_within by blast
  from Unary.IH [OF wx a] have ea: "evaluate a m = evaluate x m" .
  from Unary.prems(2) r a have h: "h = Binary ''-&'' a a"
    by (simp add: to_nand_conv_Unary)
  show ?case
    by (cases "evaluate x m") (simp_all add: h ea r known_symbols binary_truth_def)
next
  case (Binary r x y)
  from Binary.prems(1) have r: "is_binary r"
    and wx: "operators_within {''~'', ''&''} x" and wy: "operators_within {''~'', ''&''} y"
    by simp_all
  from Binary.prems(1) have rc: "r = ''&''" by (rule within_na_Binary)
  from wx obtain a where a: "to_nand_conv x = Inr a"
    using nand_conv_within by blast
  from wy obtain b where b: "to_nand_conv y = Inr b"
    using nand_conv_within by blast
  from Binary.IH(1) [OF wx a] have ea: "evaluate a m = evaluate x m" .
  from Binary.IH(2) [OF wy b] have eb: "evaluate b m = evaluate y m" .
  from rc Binary.prems(2) a b have "h = Binary ''-&'' (Binary ''-&'' a b) (Binary ''-&'' a b)"
    by (simp add: to_nand_conv_Binary known_symbols)
  with rc show ?case
    by (cases "evaluate x m"; cases "evaluate y m")
       (simp_all add: ea eb known_symbols binary_truth_def)
qed

lemma implies_not_conv_within:
  "operators_within {''~'', ''&'', ''|''} g \<Longrightarrow>
   \<exists>h. to_implies_not_conv g = Inr h \<and> operators_within {''->'', ''~''} h"
proof (induction g)
  case (Leaf r)
  then have "is_variable r" by (rule within_Leaf_variable) simp_all
  then show ?case by (simp add: to_implies_not_conv_Leaf)
next
  case (Unary r x)
  then obtain a where "to_implies_not_conv x = Inr a" "operators_within {''->'', ''~''} a"
    by auto
  with Unary.prems show ?case by (simp add: to_implies_not_conv_Unary known_symbols)
next
  case (Binary r x y)
  then obtain a b where "to_implies_not_conv x = Inr a" "operators_within {''->'', ''~''} a"
    "to_implies_not_conv y = Inr b" "operators_within {''->'', ''~''} b"
    by auto
  moreover from Binary.prems have "r = ''&'' \<or> r = ''|''" by (rule within_nao_Binary)
  ultimately show ?case by (auto simp: to_implies_not_conv_Binary known_symbols)
qed

lemma implies_not_conv_sem:
  "operators_within {''~'', ''&'', ''|''} g \<Longrightarrow> to_implies_not_conv g = Inr h \<Longrightarrow>
   evaluate h m = evaluate g m"
proof (induction g arbitrary: h)
  case (Leaf r)
  from Leaf.prems(1) have "is_variable r" by (rule within_Leaf_variable) simp_all
  with Leaf show ?case by (simp add: to_implies_not_conv_Leaf)
next
  case (Unary r x)
  from Unary.prems(1) have r: "is_unary r" and wx: "operators_within {''~'', ''&'', ''|''} x"
    by simp_all
  from wx obtain a where a: "to_implies_not_conv x = Inr a"
    using implies_not_conv_within by blast
  from Unary.IH [OF wx a] have ea: "evaluate a m = evaluate x m" .
  from Unary.prems(2) r a have h: "h = Unary ''~'' a"
    by (simp add: to_implies_not_conv_Unary)
  show ?case
    by (cases "evaluate x m") (simp_all add: h ea r known_symbols binary_truth_def)
next
  case (Binary r x y)
  from Binary.prems(1) have r: "is_binary r"
    and wx: "operators_within {''~'', ''&'', ''|''} x" and wy: "operators_within {''~'', ''&'', ''|''} y"
    by simp_all
  from Binary.prems(1) have rc: "r = ''&'' \<or> r = ''|''" by (rule within_nao_Binary)
  from wx obtain a where a: "to_implies_not_conv x = Inr a"
    using implies_not_conv_within by blast
  from wy obtain b where b: "to_implies_not_conv y = Inr b"
    using implies_not_conv_within by blast
  from Binary.IH(1) [OF wx a] have ea: "evaluate a m = evaluate x m" .
  from Binary.IH(2) [OF wy b] have eb: "evaluate b m = evaluate y m" .
  from rc show ?case
  proof
    assume c: "r = ''&''"
    with Binary.prems(2) a b have "h = Unary ''~'' (Binary ''->'' a (Unary ''~'' b))"
      by (simp add: to_implies_not_conv_Binary known_symbols)
    with c show ?thesis
      by (cases "evaluate x m"; cases "evaluate y m")
         (simp_all add: ea eb known_symbols binary_truth_def)
  next
    assume c: "r = ''|''"
    with Binary.prems(2) a b have "h = Binary ''->'' (Unary ''~'' a) b"
      by (simp add: to_implies_not_conv_Binary known_symbols)
    with c show ?thesis
      by (cases "evaluate x m"; cases "evaluate y m")
         (simp_all add: ea eb known_symbols binary_truth_def)
  qed
qed

lemma implies_false_conv_within:
  "operators_within {''~'', ''&'', ''|''} g \<Longrightarrow>
   \<exists>h. to_implies_false_conv g = Inr h \<and> operators_within {''->'', ''F''} h"
proof (induction g)
  case (Leaf r)
  then have "is_variable r" by (rule within_Leaf_variable) simp_all
  then show ?case by (simp add: to_implies_false_conv_Leaf)
next
  case (Unary r x)
  then obtain a where "to_implies_false_conv x = Inr a" "operators_within {''->'', ''F''} a"
    by auto
  with Unary.prems show ?case by (simp add: to_implies_false_conv_Unary known_symbols)
next
  case (Binary r x y)
  then obtain a b where "to_implies_false_conv x = Inr a" "operators_within {''->'', ''F''} a"
    "to_implies_false_conv y = Inr b" "operators_within {''->'', ''F''} b"
    by auto
  moreover from Binary.prems have "r = ''&'' \<or> r = ''|''" by (rule within_nao_Binary)
  ultimately show ?case by (auto simp: to_implies_false_conv_Binary known_symbols)
qed

lemma implies_false_conv_sem:
  "operators_within {''~'', ''&'', ''|''} g \<Longrightarrow> to_implies_false_conv g = Inr h \<Longrightarrow>
   evaluate h m = evaluate g m"
proof (induction g arbitrary: h)
  case (Leaf r)
  from Leaf.prems(1) have "is_variable r" by (rule within_Leaf_variable) simp_all
  with Leaf show ?case by (simp add: to_implies_false_conv_Leaf)
next
  case (Unary r x)
  from Unary.prems(1) have r: "is_unary r" and wx: "operators_within {''~'', ''&'', ''|''} x"
    by simp_all
  from wx obtain a where a: "to_implies_false_conv x = Inr a"
    using implies_false_conv_within by blast
  from Unary.IH [OF wx a] have ea: "evaluate a m = evaluate x m" .
  from Unary.prems(2) r a have h: "h = Binary ''->'' a (Leaf ''F'')"
    by (simp add: to_implies_false_conv_Unary)
  show ?case
    by (cases "evaluate x m") (simp_all add: h ea r known_symbols binary_truth_def)
next
  case (Binary r x y)
  from Binary.prems(1) have r: "is_binary r"
    and wx: "operators_within {''~'', ''&'', ''|''} x" and wy: "operators_within {''~'', ''&'', ''|''} y"
    by simp_all
  from Binary.prems(1) have rc: "r = ''&'' \<or> r = ''|''" by (rule within_nao_Binary)
  from wx obtain a where a: "to_implies_false_conv x = Inr a"
    using implies_false_conv_within by blast
  from wy obtain b where b: "to_implies_false_conv y = Inr b"
    using implies_false_conv_within by blast
  from Binary.IH(1) [OF wx a] have ea: "evaluate a m = evaluate x m" .
  from Binary.IH(2) [OF wy b] have eb: "evaluate b m = evaluate y m" .
  from rc show ?case
  proof
    assume c: "r = ''&''"
    with Binary.prems(2) a b have "h = Binary ''->'' (Binary ''->'' a (Binary ''->'' b (Leaf ''F''))) (Leaf ''F'')"
      by (simp add: to_implies_false_conv_Binary known_symbols)
    with c show ?thesis
      by (cases "evaluate x m"; cases "evaluate y m")
         (simp_all add: ea eb known_symbols binary_truth_def)
  next
    assume c: "r = ''|''"
    with Binary.prems(2) a b have "h = Binary ''->'' (Binary ''->'' a (Leaf ''F'')) b"
      by (simp add: to_implies_false_conv_Binary known_symbols)
    with c show ?thesis
      by (cases "evaluate x m"; cases "evaluate y m")
         (simp_all add: ea eb known_symbols binary_truth_def)
  qed
qed

section \<open>The five entry points on a well-formed tree\<close>

lemma symbol_eval:
  "is_variable (c # cs) = (is_lower c \<and> list_all is_alnum cs)"
  "is_lower c = (c \<in> set ''abcdefghijklmnopqrstuvwxyz'')"
  "is_alnum c = (c \<in> set ''abcdefghijklmnopqrstuvwxyzABCDEFGHIJKLMNOPQRSTUVWXYZ0123456789'')"
  "is_constant s = (s = ''T'' \<or> s = ''F'')"
  "is_unary s = (s = ''~'')"
  "is_binary s = (s \<in> set [''&'', ''|'', ''->'', ''+'', ''<->'', ''-&'', ''-|''])"
  by (simp_all add: is_variable.simps is_lower_def is_alnum_def is_constant_def is_unary_def
      is_binary_def)

lemma nao_variables:
  "well_formed f \<Longrightarrow> to_not_and_or f = Inr g \<Longrightarrow> v \<in> variables g \<Longrightarrow>
   v = ''p'' \<or> v \<in> variables f"
proof (induction f arbitrary: g v)
  case (Leaf r)
  then show ?case
    by (auto simp: to_not_and_or_Leaf is_variable_p split: if_splits)
next
  case (Unary r x)
  from Unary.prems(1,2) obtain a where a: "to_not_and_or x = Inr a" and g: "g = Unary ''~'' a"
    by (auto simp: to_not_and_or_Unary split: sum.splits)
  from Unary.prems(3) g have "v \<in> variables a" by simp
  with Unary.IH [of a v] Unary.prems(1) a show ?case by simp
next
  case (Binary r x y)
  from Binary.prems(1,2) obtain a b where a: "to_not_and_or x = Inr a"
    and b: "to_not_and_or y = Inr b" and g: "variables g = variables a \<union> variables b"
    by (auto simp: to_not_and_or_Binary binary_not_other is_binary_def split: sum.splits)
  from Binary.prems(3) g have "v \<in> variables a \<or> v \<in> variables b" by simp
  with Binary.IH(1) [of a v] Binary.IH(2) [of b v] Binary.prems(1) a b show ?case by auto
qed

lemma reducers_return:
  assumes "well_formed f"
  shows "\<exists>g h k i j.
    to_not_and_or f = Inr g \<and> operators_within {''~'', ''&'', ''|''} g \<and>
    to_not_and f = Inr h \<and> to_not_and_conv g = Inr h \<and> operators_within {''~'', ''&''} h \<and>
    to_nand f = Inr k \<and> to_nand_conv h = Inr k \<and> operators_within {''-&''} k \<and>
    to_implies_not f = Inr i \<and> to_implies_not_conv g = Inr i \<and>
      operators_within {''->'', ''~''} i \<and>
    to_implies_false f = Inr j \<and> to_implies_false_conv g = Inr j \<and>
      operators_within {''->'', ''F''} j \<and>
    (\<forall>m. evaluate h m = evaluate g m \<and> evaluate k m = evaluate g m \<and>
         evaluate i m = evaluate g m \<and> evaluate j m = evaluate g m)"
proof -
  from assms obtain g where g: "to_not_and_or f = Inr g" using nao_total by blast
  from assms g have wg: "operators_within {''~'', ''&'', ''|''} g" by (rule nao_within)
  from wg obtain h where h: "to_not_and_conv g = Inr h" "operators_within {''~'', ''&''} h"
    using not_and_conv_within by blast
  from h(2) obtain k where k: "to_nand_conv h = Inr k" "operators_within {''-&''} k"
    using nand_conv_within by blast
  from wg obtain i where i: "to_implies_not_conv g = Inr i" "operators_within {''->'', ''~''} i"
    using implies_not_conv_within by blast
  from wg obtain j where j: "to_implies_false_conv g = Inr j" "operators_within {''->'', ''F''} j"
    using implies_false_conv_within by blast
  have eh: "evaluate h m = evaluate g m" for m using wg h(1) by (rule not_and_conv_sem)
  have ek: "evaluate k m = evaluate g m" for m
    using nand_conv_sem [OF h(2) k(1), of m] eh by simp
  have ei: "evaluate i m = evaluate g m" for m using wg i(1) by (rule implies_not_conv_sem)
  have ej: "evaluate j m = evaluate g m" for m using wg j(1) by (rule implies_false_conv_sem)
  have "to_not_and f = Inr h" "to_nand f = Inr k" "to_implies_not f = Inr i"
    "to_implies_false f = Inr j"
    by (simp_all add: to_not_and_def to_nand_def to_implies_not_def to_implies_false_def
        g h k i j)
  with g wg h k i j eh ek ei ej show ?thesis by blast
qed

lemma nao_sem_general:
  "well_formed f \<Longrightarrow> to_not_and_or f = Inr g \<Longrightarrow> contains_constant f \<longrightarrow> ''p'' \<in> dom m
    \<Longrightarrow> evaluate g m = evaluate f m"
proof (induction f arbitrary: g)
  case (Leaf r)
  then show ?case
    by (auto simp: to_not_and_or_Leaf is_variable_p known_symbols binary_truth_def
        constant_not_variable is_constant_def split: if_splits)
next
  case (Unary r x)
  from Unary.prems(1,2) obtain a where a: "to_not_and_or x = Inr a" and g: "g = Unary ''~'' a"
    by (auto simp: to_not_and_or_Unary split: sum.splits)
  from Unary.prems have "evaluate a m = evaluate x m"
    by (intro Unary.IH a) auto
  with Unary.prems(1) g show ?case by (simp add: known_symbols)
next
  case (Binary r x y)
  from Binary.prems(1) have r: "is_binary r" by simp
  from Binary.prems(1) obtain a b where a: "to_not_and_or x = Inr a"
    and b: "to_not_and_or y = Inr b"
    using nao_total by (metis well_formed.simps(3))
  from Binary.prems have ea: "evaluate a m = evaluate x m"
    by (intro Binary.IH(1) a) auto
  from Binary.prems have eb: "evaluate b m = evaluate y m"
    by (intro Binary.IH(2) b) auto
  from r have "r = ''&'' \<or> r = ''|'' \<or> r = ''->'' \<or> r = ''+'' \<or> r = ''<->'' \<or> r = ''-&''
    \<or> r = ''-|''"
    by (simp add: is_binary_def)
  then show ?case
  proof (elim disjE)
    assume c: "r = ''&''"
    with Binary.prems(2) a b have "g = Binary ''&'' a b"
      by (simp add: to_not_and_or_Binary binary_not_other known_symbols)
    with c show ?thesis
      by (cases "evaluate x m"; cases "evaluate y m")
         (simp_all add: ea eb known_symbols binary_truth_def)
  next
    assume c: "r = ''|''"
    with Binary.prems(2) a b have "g = Binary ''|'' a b"
      by (simp add: to_not_and_or_Binary binary_not_other known_symbols)
    with c show ?thesis
      by (cases "evaluate x m"; cases "evaluate y m")
         (simp_all add: ea eb known_symbols binary_truth_def)
  next
    assume c: "r = ''->''"
    with Binary.prems(2) a b have "g = Binary ''|'' (Unary ''~'' a) b"
      by (simp add: to_not_and_or_Binary binary_not_other known_symbols)
    with c show ?thesis
      by (cases "evaluate x m"; cases "evaluate y m")
         (simp_all add: ea eb known_symbols binary_truth_def)
  next
    assume c: "r = ''+''"
    with Binary.prems(2) a b r have
      "g = Binary ''|'' (Binary ''&'' a (Unary ''~'' b)) (Binary ''&'' (Unary ''~'' a) b)"
      by (simp add: to_not_and_or_Binary binary_not_other)
    with c show ?thesis
      by (cases "evaluate x m"; cases "evaluate y m")
         (auto simp: ea eb known_symbols binary_truth_def)
  next
    assume c: "r = ''<->''"
    with Binary.prems(2) a b r have
      "g = Binary ''|'' (Binary ''&'' a b) (Binary ''&'' (Unary ''~'' a) (Unary ''~'' b))"
      by (simp add: to_not_and_or_Binary binary_not_other)
    with c show ?thesis
      by (cases "evaluate x m"; cases "evaluate y m")
         (auto simp: ea eb known_symbols binary_truth_def)
  next
    assume c: "r = ''-&''"
    with Binary.prems(2) a b have "g = Unary ''~'' (Binary ''&'' a b)"
      by (simp add: to_not_and_or_Binary binary_not_other known_symbols)
    with c show ?thesis
      by (cases "evaluate x m"; cases "evaluate y m")
         (simp_all add: ea eb known_symbols binary_truth_def)
  next
    assume c: "r = ''-|''"
    with Binary.prems(2) a b r have "g = Unary ''~'' (Binary ''|'' a b)"
      by (simp add: to_not_and_or_Binary binary_not_other)
    with c show ?thesis
      by (cases "evaluate x m"; cases "evaluate y m")
         (simp_all add: ea eb known_symbols binary_truth_def)
  qed
qed

lemma reducers_sem_general:
  assumes "well_formed f"
  shows "\<exists>g h k i j.
    to_not_and_or f = Inr g \<and> to_not_and f = Inr h \<and> to_nand f = Inr k \<and>
    to_implies_not f = Inr i \<and> to_implies_false f = Inr j \<and>
    (\<forall>m. (contains_constant f \<longrightarrow> ''p'' \<in> dom m) \<longrightarrow>
       evaluate g m = evaluate f m \<and> evaluate h m = evaluate f m \<and>
       evaluate k m = evaluate f m \<and> evaluate i m = evaluate f m \<and>
       evaluate j m = evaluate f m)"
proof -
  from reducers_return [OF assms] obtain g h k i j where
    r: "to_not_and_or f = Inr g" "to_not_and f = Inr h" "to_nand f = Inr k"
       "to_implies_not f = Inr i" "to_implies_false f = Inr j"
    and e: "\<forall>m. evaluate h m = evaluate g m \<and> evaluate k m = evaluate g m \<and>
         evaluate i m = evaluate g m \<and> evaluate j m = evaluate g m"
    by blast
  have "evaluate g m = evaluate f m" if "contains_constant f \<longrightarrow> ''p'' \<in> dom m" for m
    using assms r(1) that by (rule nao_sem_general)
  with r e show ?thesis by simp
qed

lemma reducers_error:
  assumes "arity_ok f" and "unknown_operators f = r # rs"
  shows "to_not_and_or f = Inl (ValueError (''Unknown operator: '' @ r))"
    "to_not_and f = Inl (ValueError (''Unknown operator: '' @ r))"
    "to_nand f = Inl (ValueError (''Unknown operator: '' @ r))"
    "to_implies_not f = Inl (ValueError (''Unknown operator: '' @ r))"
    "to_implies_false f = Inl (ValueError (''Unknown operator: '' @ r))"
    "\<not> is_binary r"
  using nao_error [OF assms]
  by (simp_all add: to_not_and_def to_nand_def to_implies_not_def to_implies_false_def)

section \<open>Size and depth of the outputs\<close>

lemma nao_Binary_shape:
  assumes "well_formed (Binary r x y)" and "to_not_and_or (Binary r x y) = Inr g"
  shows "\<exists>a b. to_not_and_or x = Inr a \<and> to_not_and_or y = Inr b \<and>
    formula_size g \<le> 5 + 2 * formula_size a + 2 * formula_size b \<and>
    depth g \<le> 3 + max (depth a) (depth b)"
  using assms
  by (auto simp: to_not_and_or_Binary binary_not_other is_binary_def split: sum.splits; arith)

lemma nao_depth:
  "well_formed f \<Longrightarrow> to_not_and_or f = Inr g \<Longrightarrow> depth g \<le> 3 * depth f + 2"
proof (induction f arbitrary: g)
  case (Leaf r)
  then show ?case by (auto simp: to_not_and_or_Leaf split: if_splits)
next
  case (Unary r x)
  from Unary.prems obtain a where a: "to_not_and_or x = Inr a" and g: "g = Unary ''~'' a"
    by (auto simp: to_not_and_or_Unary split: sum.splits)
  from Unary.IH [OF _ a] Unary.prems(1) have "depth a \<le> 3 * depth x + 2" by simp
  with g show ?case by simp
next
  case (Binary r x y)
  from nao_Binary_shape [OF Binary.prems] obtain a b where
    a: "to_not_and_or x = Inr a" and b: "to_not_and_or y = Inr b"
    and d: "depth g \<le> 3 + max (depth a) (depth b)"
    by blast
  from Binary.IH(1) [OF _ a] Binary.prems(1) have "depth a \<le> 3 * depth x + 2" by simp
  moreover from Binary.IH(2) [OF _ b] Binary.prems(1) have "depth b \<le> 3 * depth y + 2" by simp
  ultimately show ?case using d by simp
qed

lemma nao_size:
  "well_formed f \<Longrightarrow> to_not_and_or f = Inr g \<Longrightarrow>
   formula_size g \<le> 4 * 2 ^ depth f * formula_size f"
proof (induction f arbitrary: g)
  case (Leaf r)
  then show ?case by (auto simp: to_not_and_or_Leaf split: if_splits)
next
  case (Unary r x)
  from Unary.prems obtain a where a: "to_not_and_or x = Inr a" and g: "g = Unary ''~'' a"
    by (auto simp: to_not_and_or_Unary split: sum.splits)
  define P :: nat where "P = 2 ^ depth x"
  have P: "1 \<le> P" by (simp add: P_def)
  from Unary.IH [OF _ a] Unary.prems(1) have "formula_size a \<le> 4 * (P * formula_size x)"
    by (simp add: P_def)
  with g P have "formula_size g \<le> 8 * P + 8 * (P * formula_size x)" by simp
  then show ?case by (simp add: P_def algebra_simps)
next
  case (Binary r x y)
  from nao_Binary_shape [OF Binary.prems] obtain a b where
    a: "to_not_and_or x = Inr a" and b: "to_not_and_or y = Inr b"
    and s: "formula_size g \<le> 5 + 2 * formula_size a + 2 * formula_size b"
    by blast
  define P :: nat where "P = 2 ^ max (depth x) (depth y)"
  have P: "1 \<le> P" by (simp add: P_def)
  have px: "(2::nat) ^ depth x \<le> P" and py: "(2::nat) ^ depth y \<le> P"
    by (simp_all add: P_def)
  from Binary.IH(1) [OF _ a] Binary.prems(1)
  have "formula_size a \<le> 4 * (2 ^ depth x * formula_size x)" by simp
  also have "\<dots> \<le> 4 * (P * formula_size x)" using px by simp
  finally have sa: "formula_size a \<le> 4 * (P * formula_size x)" .
  from Binary.IH(2) [OF _ b] Binary.prems(1)
  have "formula_size b \<le> 4 * (2 ^ depth y * formula_size y)" by simp
  also have "\<dots> \<le> 4 * (P * formula_size y)" using py by simp
  finally have sb: "formula_size b \<le> 4 * (P * formula_size y)" .
  from s sa sb P
  have "formula_size g \<le> 8 * P + 8 * (P * formula_size x) + 8 * (P * formula_size y)"
    by simp
  then show ?case by (simp add: P_def algebra_simps)
qed

lemma not_and_conv_Binary_shape:
  assumes "operators_within {''~'', ''&'', ''|''} (Binary r x y)"
    and "to_not_and_conv (Binary r x y) = Inr h"
  shows "\<exists>a b. to_not_and_conv x = Inr a \<and> to_not_and_conv y = Inr b \<and>
    formula_size h \<le> 4 + formula_size a + formula_size b \<and>
    depth h \<le> 3 + max (depth a) (depth b)"
proof -
  from assms(1) have "r = ''&'' \<or> r = ''|''" by (rule within_nao_Binary)
  with assms show ?thesis
    by (auto simp: to_not_and_conv_Binary split: sum.splits if_splits; arith)
qed

lemma not_and_conv_size:
  "operators_within {''~'', ''&'', ''|''} g \<Longrightarrow> to_not_and_conv g = Inr h \<Longrightarrow>
   formula_size h \<le> 4 * formula_size g \<and> depth h \<le> 3 * depth g"
proof (induction g arbitrary: h)
  case (Leaf r)
  from Leaf.prems(1) have "is_variable r" by (rule within_Leaf_variable) simp_all
  with Leaf show ?case by (simp add: to_not_and_conv_Leaf)
next
  case (Unary r x)
  from Unary.prems obtain a where a: "to_not_and_conv x = Inr a" and h: "h = Unary ''~'' a"
    by (auto simp: to_not_and_conv_Unary split: sum.splits)
  from Unary.IH [OF _ a] Unary.prems(1)
  have "formula_size a \<le> 4 * formula_size x \<and> depth a \<le> 3 * depth x" by simp
  with h show ?case by simp
next
  case (Binary r x y)
  from not_and_conv_Binary_shape [OF Binary.prems] obtain a b where
    a: "to_not_and_conv x = Inr a" and b: "to_not_and_conv y = Inr b"
    and s: "formula_size h \<le> 4 + formula_size a + formula_size b"
    and d: "depth h \<le> 3 + max (depth a) (depth b)"
    by blast
  from Binary.IH(1) [OF _ a] Binary.prems(1)
  have ia: "formula_size a \<le> 4 * formula_size x" "depth a \<le> 3 * depth x" by simp_all
  from Binary.IH(2) [OF _ b] Binary.prems(1)
  have ib: "formula_size b \<le> 4 * formula_size y" "depth b \<le> 3 * depth y" by simp_all
  from s ia(1) ib(1) have "formula_size h \<le> 4 * formula_size (Binary r x y)" by simp
  moreover from d ia(2) ib(2) have "depth h \<le> 3 * (1 + max (depth x) (depth y))" by arith
  ultimately show ?case by simp
qed

lemma implies_not_conv_size:
  "operators_within {''~'', ''&'', ''|''} g \<Longrightarrow> to_implies_not_conv g = Inr h \<Longrightarrow>
   formula_size h \<le> 3 * formula_size g"
proof (induction g arbitrary: h)
  case (Leaf r)
  from Leaf.prems(1) have "is_variable r" by (rule within_Leaf_variable) simp_all
  with Leaf show ?case by (simp add: to_implies_not_conv_Leaf)
next
  case (Unary r x)
  from Unary.prems obtain a where a: "to_implies_not_conv x = Inr a" and h: "h = Unary ''~'' a"
    by (auto simp: to_implies_not_conv_Unary split: sum.splits)
  from Unary.IH [OF _ a] Unary.prems(1) have "formula_size a \<le> 3 * formula_size x" by simp
  with h show ?case by simp
next
  case (Binary r x y)
  from Binary.prems(1) have rc: "r = ''&'' \<or> r = ''|''" by (rule within_nao_Binary)
  with Binary.prems obtain a b where a: "to_implies_not_conv x = Inr a"
    and b: "to_implies_not_conv y = Inr b"
    and s: "formula_size h \<le> 3 + formula_size a + formula_size b"
    by (auto simp: to_implies_not_conv_Binary split: sum.splits if_splits)
  from Binary.IH(1) [OF _ a] Binary.prems(1) have "formula_size a \<le> 3 * formula_size x" by simp
  moreover from Binary.IH(2) [OF _ b] Binary.prems(1)
  have "formula_size b \<le> 3 * formula_size y" by simp
  ultimately show ?case using s by simp
qed

lemma implies_false_conv_size:
  "operators_within {''~'', ''&'', ''|''} g \<Longrightarrow> to_implies_false_conv g = Inr h \<Longrightarrow>
   formula_size h \<le> 5 * formula_size g"
proof (induction g arbitrary: h)
  case (Leaf r)
  from Leaf.prems(1) have "is_variable r" by (rule within_Leaf_variable) simp_all
  with Leaf show ?case by (simp add: to_implies_false_conv_Leaf)
next
  case (Unary r x)
  from Unary.prems obtain a where a: "to_implies_false_conv x = Inr a"
    and h: "h = Binary ''->'' a (Leaf ''F'')"
    by (auto simp: to_implies_false_conv_Unary split: sum.splits)
  from Unary.IH [OF _ a] Unary.prems(1) have "formula_size a \<le> 5 * formula_size x" by simp
  with h show ?case by simp
next
  case (Binary r x y)
  from Binary.prems(1) have rc: "r = ''&'' \<or> r = ''|''" by (rule within_nao_Binary)
  with Binary.prems obtain a b where a: "to_implies_false_conv x = Inr a"
    and b: "to_implies_false_conv y = Inr b"
    and s: "formula_size h \<le> 5 + formula_size a + formula_size b"
    by (auto simp: to_implies_false_conv_Binary split: sum.splits if_splits)
  from Binary.IH(1) [OF _ a] Binary.prems(1) have "formula_size a \<le> 5 * formula_size x" by simp
  moreover from Binary.IH(2) [OF _ b] Binary.prems(1)
  have "formula_size b \<le> 5 * formula_size y" by simp
  ultimately show ?case using s by simp
qed

lemma nand_conv_size:
  "operators_within {''~'', ''&''} g \<Longrightarrow> to_nand_conv g = Inr k \<Longrightarrow>
   formula_size k + 1 \<le> 2 * 2 ^ depth g * formula_size g"
proof (induction g arbitrary: k)
  case (Leaf r)
  from Leaf.prems(1) have "is_variable r" by (rule within_Leaf_variable) simp_all
  with Leaf show ?case by (auto simp: to_nand_conv_Leaf)
next
  case (Unary r x)
  from Unary.prems obtain a where a: "to_nand_conv x = Inr a"
    and k: "k = Binary ''-&'' a a"
    by (auto simp: to_nand_conv_Unary split: sum.splits)
  define P :: nat where "P = 2 ^ depth x"
  from Unary.IH [OF _ a] Unary.prems(1)
  have "formula_size a + 1 \<le> 2 * (P * formula_size x)" by (simp add: P_def)
  with k have "formula_size k + 1 \<le> 4 * P + 4 * (P * formula_size x)" by simp
  then show ?case by (simp add: P_def algebra_simps)
next
  case (Binary r x y)
  from Binary.prems(1) have rc: "r = ''&''" by (rule within_na_Binary)
  with Binary.prems obtain a b where a: "to_nand_conv x = Inr a"
    and b: "to_nand_conv y = Inr b"
    and s: "formula_size k + 1 = 2 * (formula_size a + 1) + 2 * (formula_size b + 1)"
    by (auto simp: to_nand_conv_Binary split: sum.splits if_splits)
  define P :: nat where "P = 2 ^ max (depth x) (depth y)"
  have px: "(2::nat) ^ depth x \<le> P" and py: "(2::nat) ^ depth y \<le> P"
    by (simp_all add: P_def)
  from Binary.IH(1) [OF _ a] Binary.prems(1)
  have "formula_size a + 1 \<le> 2 * (2 ^ depth x * formula_size x)" by simp
  also have "\<dots> \<le> 2 * (P * formula_size x)" using px by simp
  finally have sa: "formula_size a + 1 \<le> 2 * (P * formula_size x)" .
  from Binary.IH(2) [OF _ b] Binary.prems(1)
  have "formula_size b + 1 \<le> 2 * (2 ^ depth y * formula_size y)" by simp
  also have "\<dots> \<le> 2 * (P * formula_size y)" using py by simp
  finally have sb: "formula_size b + 1 \<le> 2 * (P * formula_size y)" .
  from s sa sb
  have "formula_size k + 1 \<le> 4 * P + 4 * (P * formula_size x) + 4 * (P * formula_size y)"
    by simp
  then show ?case by (simp add: P_def algebra_simps)
qed

lemma xor_chain_shape: "well_formed (xor_chain d) \<and> depth (xor_chain d) = d \<and>
  formula_size (xor_chain d) = 2 * d + 1"
  by (induction d) (simp_all add: is_variable_p known_symbols symbol_eval(6))

lemma xor_chain_size:
  "\<exists>g. to_not_and_or (xor_chain d) = Inr g \<and> formula_size g + 7 = 8 * 2 ^ d"
proof (induction d)
  case 0
  show ?case by (simp add: to_not_and_or_Leaf is_variable_p)
next
  case (Suc d)
  then obtain g where g: "to_not_and_or (xor_chain d) = Inr g"
    and s: "formula_size g + 7 = 8 * 2 ^ d"
    by blast
  have b: "is_binary ''+''" by (simp add: symbol_eval)
  have "to_not_and_or (xor_chain (Suc d)) =
    Inr (Binary ''|'' (Binary ''&'' (Leaf ''p'') (Unary ''~'' g))
                      (Binary ''&'' (Unary ''~'' (Leaf ''p'')) g))"
    using binary_not_other [OF b]
    by (simp add: to_not_and_or_Binary to_not_and_or_Leaf is_variable_p g)
  with s show ?case by simp
qed

section \<open>The claims\<close>

text \<open>
  C1. Semantic equivalence. Let \<open>f\<close> be well formed, let \<open>m\<close> be a model that gives a
  value to every variable of \<open>f\<close>, and let \<open>m'\<close> be \<open>m\<close> itself or \<open>m\<close> extended, such
  that the placeholder \<^verbatim>\<open>p\<close> has some value in \<open>m'\<close> (the value is arbitrary when \<^verbatim>\<open>p\<close>
  is not a variable of \<open>f\<close>). Then each of \<^verbatim>\<open>to_not_and_or\<close>, \<^verbatim>\<open>to_not_and\<close>,
  \<^verbatim>\<open>to_nand\<close>, \<^verbatim>\<open>to_implies_not\<close> and \<^verbatim>\<open>to_implies_false\<close> returns a formula, and that
  formula has under \<open>m'\<close> the truth value that \<open>f\<close> has under \<open>m\<close>.
\<close>

theorem reducers_preserve_truth_value:
  assumes "well_formed f" and "variables f \<subseteq> dom m" and "m \<subseteq>\<^sub>m m'" and "''p'' \<in> dom m'"
  shows "\<exists>g h k i j.
    to_not_and_or f = Inr g \<and> evaluate g m' = evaluate f m \<and>
    to_not_and f = Inr h \<and> evaluate h m' = evaluate f m \<and>
    to_nand f = Inr k \<and> evaluate k m' = evaluate f m \<and>
    to_implies_not f = Inr i \<and> evaluate i m' = evaluate f m \<and>
    to_implies_false f = Inr j \<and> evaluate j m' = evaluate f m \<and>
    evaluate f m \<noteq> None"
proof -
  from reducers_return [OF assms(1)] obtain g h k i j where
    r: "to_not_and_or f = Inr g" "to_not_and f = Inr h" "to_nand f = Inr k"
       "to_implies_not f = Inr i" "to_implies_false f = Inr j"
    and e: "\<forall>m. evaluate h m = evaluate g m \<and> evaluate k m = evaluate g m \<and>
         evaluate i m = evaluate g m \<and> evaluate j m = evaluate g m"
    by blast
  from assms(2,3) have "\<forall>v\<in>variables f. m' v = m v"
    unfolding map_le_def by (metis subsetD)
  with assms r(1) have "evaluate g m' = evaluate f m \<and> evaluate f m \<noteq> None"
    by (intro nao_sem)
  with r e show ?thesis by simp
qed

theorem reducers_preserve_truth_value_witness:
  "well_formed (Binary ''+'' (Leaf ''q'') (Leaf ''T'')) \<and>
   variables (Binary ''+'' (Leaf ''q'') (Leaf ''T'')) \<subseteq> dom [''q'' \<mapsto> True] \<and>
   [''q'' \<mapsto> True] \<subseteq>\<^sub>m [''q'' \<mapsto> True, ''p'' \<mapsto> False] \<and>
   ''p'' \<in> dom [''q'' \<mapsto> True, ''p'' \<mapsto> False] \<and>
   (\<exists>g h k i j.
    to_not_and_or (Binary ''+'' (Leaf ''q'') (Leaf ''T'')) = Inr g \<and>
    evaluate g [''q'' \<mapsto> True, ''p'' \<mapsto> False] = Some False \<and>
    to_not_and (Binary ''+'' (Leaf ''q'') (Leaf ''T'')) = Inr h \<and>
    evaluate h [''q'' \<mapsto> True, ''p'' \<mapsto> False] = Some False \<and>
    to_nand (Binary ''+'' (Leaf ''q'') (Leaf ''T'')) = Inr k \<and>
    evaluate k [''q'' \<mapsto> True, ''p'' \<mapsto> False] = Some False \<and>
    to_implies_not (Binary ''+'' (Leaf ''q'') (Leaf ''T'')) = Inr i \<and>
    evaluate i [''q'' \<mapsto> True, ''p'' \<mapsto> False] = Some False \<and>
    to_implies_false (Binary ''+'' (Leaf ''q'') (Leaf ''T'')) = Inr j \<and>
    evaluate j [''q'' \<mapsto> True, ''p'' \<mapsto> False] = Some False)"
proof -
  have wf: "well_formed (Binary ''+'' (Leaf ''q'') (Leaf ''T''))"
    by (simp add: symbol_eval)
  have vs: "variables (Binary ''+'' (Leaf ''q'') (Leaf ''T'')) \<subseteq> dom [''q'' \<mapsto> True]"
    by (simp add: symbol_eval)
  have le: "[''q'' \<mapsto> True] \<subseteq>\<^sub>m [''q'' \<mapsto> True, ''p'' \<mapsto> False]"
    by (simp add: map_le_def)
  have p: "''p'' \<in> dom [''q'' \<mapsto> True, ''p'' \<mapsto> False]"
    by simp
  have ev: "evaluate (Binary ''+'' (Leaf ''q'') (Leaf ''T'')) [''q'' \<mapsto> True] = Some False"
    by (simp add: symbol_eval binary_truth_def)
  note t = reducers_preserve_truth_value [OF wf vs le p, unfolded ev]
  show ?thesis using wf vs le p t by blast
qed

text \<open>
  C2. Operator-set containment. On a well-formed input each reducer returns a tree, and
  every node of that tree is a variable or carries a symbol of the reducer's set:
  \<^verbatim>\<open>~\<close>, \<^verbatim>\<open>&\<close>, \<^verbatim>\<open>|\<close> for \<^verbatim>\<open>to_not_and_or\<close>; \<^verbatim>\<open>~\<close>, \<^verbatim>\<open>&\<close> for \<^verbatim>\<open>to_not_and\<close>; \<^verbatim>\<open>-&\<close> for
  \<^verbatim>\<open>to_nand\<close>; \<^verbatim>\<open>->\<close>, \<^verbatim>\<open>~\<close> for \<^verbatim>\<open>to_implies_not\<close>; \<^verbatim>\<open>->\<close> and the constant \<^verbatim>\<open>F\<close> for
  \<^verbatim>\<open>to_implies_false\<close>. No constant occurs in the first four outputs, and \<^verbatim>\<open>T\<close> occurs in
  none.
\<close>

theorem reducers_operator_sets:
  assumes "well_formed f"
  shows "\<exists>g h k i j.
    to_not_and_or f = Inr g \<and> operators_within {''~'', ''&'', ''|''} g \<and>
    to_not_and f = Inr h \<and> operators_within {''~'', ''&''} h \<and>
    to_nand f = Inr k \<and> operators_within {''-&''} k \<and>
    to_implies_not f = Inr i \<and> operators_within {''->'', ''~''} i \<and>
    to_implies_false f = Inr j \<and> operators_within {''->'', ''F''} j"
  using reducers_return [OF assms] by blast

theorem reducers_operator_sets_witness:
  "well_formed (Binary ''<->'' (Leaf ''x1'') (Unary ''~'' (Leaf ''F''))) \<and>
   (\<exists>g h k i j.
    to_not_and_or (Binary ''<->'' (Leaf ''x1'') (Unary ''~'' (Leaf ''F''))) = Inr g \<and>
      operators_within {''~'', ''&'', ''|''} g \<and>
    to_not_and (Binary ''<->'' (Leaf ''x1'') (Unary ''~'' (Leaf ''F''))) = Inr h \<and>
      operators_within {''~'', ''&''} h \<and>
    to_nand (Binary ''<->'' (Leaf ''x1'') (Unary ''~'' (Leaf ''F''))) = Inr k \<and>
      operators_within {''-&''} k \<and>
    to_implies_not (Binary ''<->'' (Leaf ''x1'') (Unary ''~'' (Leaf ''F''))) = Inr i \<and>
      operators_within {''->'', ''~''} i \<and>
    to_implies_false (Binary ''<->'' (Leaf ''x1'') (Unary ''~'' (Leaf ''F''))) = Inr j \<and>
      operators_within {''->'', ''F''} j)"
proof -
  have wf: "well_formed (Binary ''<->'' (Leaf ''x1'') (Unary ''~'' (Leaf ''F'')))"
    by (simp add: symbol_eval)
  show ?thesis using wf reducers_operator_sets [OF wf] by blast
qed

text \<open>
  C3. The claim that \<^verbatim>\<open>UnrecognizedOperator\<close> is the only failure of the five reducers on
  a tree carrying a symbol outside the known set does not hold. On a one-child node whose
  root is \<^verbatim>\<open>!\<close> the tests of lines 14, 17 and 23 fail, line 26 converts the child, and line
  27 reads the attribute \<^verbatim>\<open>second\<close>, which the node does not have: the reducers raise
  \<^verbatim>\<open>AttributeError\<close> and never reach the \<^verbatim>\<open>ValueError\<close> of line 45.
\<close>

theorem unknown_symbol_on_one_child_node_raises_AttributeError:
  "\<not> well_formed (Unary ''!'' (Leaf ''q'')) \<and>
   \<not> is_variable ''!'' \<and> \<not> is_constant ''!'' \<and> \<not> is_unary ''!'' \<and> \<not> is_binary ''!'' \<and>
   to_not_and_or (Unary ''!'' (Leaf ''q'')) = Inl AttributeError \<and>
   to_not_and (Unary ''!'' (Leaf ''q'')) = Inl AttributeError \<and>
   to_nand (Unary ''!'' (Leaf ''q'')) = Inl AttributeError \<and>
   to_implies_not (Unary ''!'' (Leaf ''q'')) = Inl AttributeError \<and>
   to_implies_false (Unary ''!'' (Leaf ''q'')) = Inl AttributeError \<and>
   AttributeError \<noteq> ValueError (''Unknown operator: '' @ ''!'')"
proof -
  have s: "\<not> is_variable ''!''" "\<not> is_constant ''!''" "\<not> is_unary ''!''" "\<not> is_binary ''!''"
    "is_variable ''q''"
    by (simp_all add: symbol_eval)
  have "to_not_and_or (Unary ''!'' (Leaf ''q'')) = Inl AttributeError"
    by (subst to_not_and_or.simps) (simp add: s to_not_and_or_Leaf)
  with s show ?thesis
    by (simp add: to_not_and_def to_nand_def to_implies_not_def to_implies_false_def)
qed

text \<open>
  C3, as amended. On a well-formed tree none of the five reducers raises. On a tree that
  keeps the arity invariant of the data model (no child under a variable or a constant,
  one child under \<^verbatim>\<open>~\<close>, two children under every other symbol) but is not well formed,
  that is, a tree with a two-child node whose symbol is none of the seven binary
  operators, every one of the five raises \<^verbatim>\<open>ValueError('Unknown operator: ' + r)\<close>, where
  \<open>r\<close> is the first such symbol that the base reducer meets; it is raised inside
  \<^verbatim>\<open>to_not_and_or\<close>, so the second passes never run and no tree is returned. Hence a
  reducer that raises was given a tree that is not well formed.
\<close>

theorem reducers_fail_only_on_unknown_operator:
  "(well_formed f \<longrightarrow>
      \<not> isl (to_not_and_or f) \<and> \<not> isl (to_not_and f) \<and> \<not> isl (to_nand f) \<and>
      \<not> isl (to_implies_not f) \<and> \<not> isl (to_implies_false f)) \<and>
   (arity_ok f \<and> \<not> well_formed f \<longrightarrow>
      (\<exists>r rs. unknown_operators f = r # rs \<and> \<not> is_binary r \<and>
        to_not_and_or f = Inl (ValueError (''Unknown operator: '' @ r)) \<and>
        to_not_and f = Inl (ValueError (''Unknown operator: '' @ r)) \<and>
        to_nand f = Inl (ValueError (''Unknown operator: '' @ r)) \<and>
        to_implies_not f = Inl (ValueError (''Unknown operator: '' @ r)) \<and>
        to_implies_false f = Inl (ValueError (''Unknown operator: '' @ r))))"
proof (intro conjI impI)
  assume "well_formed f"
  from reducers_return [OF this] obtain g h k i j where
    "to_not_and_or f = Inr g" "to_not_and f = Inr h" "to_nand f = Inr k"
    "to_implies_not f = Inr i" "to_implies_false f = Inr j"
    by blast
  then show "\<not> isl (to_not_and_or f)" "\<not> isl (to_not_and f)" "\<not> isl (to_nand f)"
    "\<not> isl (to_implies_not f)" "\<not> isl (to_implies_false f)"
    by simp_all
next
  assume a: "arity_ok f \<and> \<not> well_formed f"
  then obtain r rs where u: "unknown_operators f = r # rs"
    by (cases "unknown_operators f") (auto simp: well_formed_iff)
  from a have ok: "arity_ok f" by simp
  from reducers_error [OF ok u] u
  show "\<exists>r rs. unknown_operators f = r # rs \<and> \<not> is_binary r \<and>
        to_not_and_or f = Inl (ValueError (''Unknown operator: '' @ r)) \<and>
        to_not_and f = Inl (ValueError (''Unknown operator: '' @ r)) \<and>
        to_nand f = Inl (ValueError (''Unknown operator: '' @ r)) \<and>
        to_implies_not f = Inl (ValueError (''Unknown operator: '' @ r)) \<and>
        to_implies_false f = Inl (ValueError (''Unknown operator: '' @ r))"
    by blast
qed

theorem reducers_fail_only_on_unknown_operator_witness:
  "well_formed (Binary ''-|'' (Leaf ''q'') (Leaf ''T'')) \<and>
   \<not> isl (to_not_and_or (Binary ''-|'' (Leaf ''q'') (Leaf ''T''))) \<and>
   \<not> isl (to_not_and (Binary ''-|'' (Leaf ''q'') (Leaf ''T''))) \<and>
   \<not> isl (to_nand (Binary ''-|'' (Leaf ''q'') (Leaf ''T''))) \<and>
   \<not> isl (to_implies_not (Binary ''-|'' (Leaf ''q'') (Leaf ''T''))) \<and>
   \<not> isl (to_implies_false (Binary ''-|'' (Leaf ''q'') (Leaf ''T''))) \<and>
   arity_ok (Binary ''&'' (Binary ''=>'' (Leaf ''q'') (Leaf ''T'')) (Leaf ''q'')) \<and>
   \<not> well_formed (Binary ''&'' (Binary ''=>'' (Leaf ''q'') (Leaf ''T'')) (Leaf ''q'')) \<and>
   unknown_operators (Binary ''&'' (Binary ''=>'' (Leaf ''q'') (Leaf ''T'')) (Leaf ''q'')) = [''=>''] \<and>
   \<not> is_binary ''=>'' \<and>
   to_not_and_or (Binary ''&'' (Binary ''=>'' (Leaf ''q'') (Leaf ''T'')) (Leaf ''q'')) = Inl (ValueError ''Unknown operator: =>'') \<and>
   to_not_and (Binary ''&'' (Binary ''=>'' (Leaf ''q'') (Leaf ''T'')) (Leaf ''q'')) = Inl (ValueError ''Unknown operator: =>'') \<and>
   to_nand (Binary ''&'' (Binary ''=>'' (Leaf ''q'') (Leaf ''T'')) (Leaf ''q'')) = Inl (ValueError ''Unknown operator: =>'') \<and>
   to_implies_not (Binary ''&'' (Binary ''=>'' (Leaf ''q'') (Leaf ''T'')) (Leaf ''q'')) = Inl (ValueError ''Unknown operator: =>'') \<and>
   to_implies_false (Binary ''&'' (Binary ''=>'' (Leaf ''q'') (Leaf ''T'')) (Leaf ''q'')) = Inl (ValueError ''Unknown operator: =>'')"
proof -
  have wf: "well_formed (Binary ''-|'' (Leaf ''q'') (Leaf ''T''))"
    by (simp add: symbol_eval)
  have ar: "arity_ok (Binary ''&'' (Binary ''=>'' (Leaf ''q'') (Leaf ''T'')) (Leaf ''q'')) \<and>
    \<not> well_formed (Binary ''&'' (Binary ''=>'' (Leaf ''q'') (Leaf ''T'')) (Leaf ''q''))"
    by (simp add: symbol_eval)
  have un: "unknown_operators (Binary ''&'' (Binary ''=>'' (Leaf ''q'') (Leaf ''T'')) (Leaf ''q'')) = [''=>'']"
    by (simp add: symbol_eval)
  note t1 = reducers_fail_only_on_unknown_operator
    [of "Binary ''-|'' (Leaf ''q'') (Leaf ''T'')", THEN conjunct1, rule_format, OF wf]
  note t2 = reducers_fail_only_on_unknown_operator
    [of "Binary ''&'' (Binary ''=>'' (Leaf ''q'') (Leaf ''T'')) (Leaf ''q'')",
      THEN conjunct2, rule_format, OF ar, unfolded un]
  from wf ar un t1 t2 show ?thesis by auto
qed

text \<open>
  C4. The claim that the output has at most 8 times the nodes of a well-formed input of
  depth at most 10 does not hold: \<^verbatim>\<open>to_nand\<close> turns the single node \<^verbatim>\<open>T\<close> into 47 nodes,
  \<^verbatim>\<open>to_implies_false\<close> turns the single node \<^verbatim>\<open>F\<close> into 9, and \<^verbatim>\<open>to_not_and_or\<close> turns
  the five nodes of \<^verbatim>\<open>(T+(T+T))\<close> into 55.
\<close>

theorem size_bound_8_fails:
  "well_formed (Leaf ''T'') \<and> depth (Leaf ''T'') \<le> 10 \<and>
   output_size (to_nand (Leaf ''T'')) = Some 47 \<and>
   \<not> 47 \<le> 8 * formula_size (Leaf ''T'') \<and>
   well_formed (Leaf ''F'') \<and> depth (Leaf ''F'') \<le> 10 \<and>
   output_size (to_implies_false (Leaf ''F'')) = Some 9 \<and>
   \<not> 9 \<le> 8 * formula_size (Leaf ''F'') \<and>
   well_formed (Binary ''+'' (Leaf ''T'') (Binary ''+'' (Leaf ''T'') (Leaf ''T''))) \<and>
   depth (Binary ''+'' (Leaf ''T'') (Binary ''+'' (Leaf ''T'') (Leaf ''T''))) \<le> 10 \<and>
   output_size (to_not_and_or (Binary ''+'' (Leaf ''T'') (Binary ''+'' (Leaf ''T'') (Leaf ''T''))))
     = Some 55 \<and>
   \<not> 55 \<le> 8 * formula_size (Binary ''+'' (Leaf ''T'') (Binary ''+'' (Leaf ''T'') (Leaf ''T'')))"
proof -
  have b: "\<not> is_variable ''+''" "\<not> is_constant ''+''" "\<not> is_unary ''+''"
    "\<not> is_variable ''T''" "\<not> is_variable ''F''"
    by (simp_all add: symbol_eval)
  show ?thesis
    by (simp add: output_size_def to_nand_def to_not_and_def to_implies_false_def
        to_not_and_or_Leaf to_not_and_or_Binary b
        to_not_and_conv_Leaf to_not_and_conv_Unary to_not_and_conv_Binary
        to_nand_conv_Leaf to_nand_conv_Unary to_nand_conv_Binary
        to_implies_false_conv_Leaf to_implies_false_conv_Unary to_implies_false_conv_Binary
        known_symbols is_variable_p symbol_eval(6))
qed

text \<open>
  C4, as amended. The factor grows with the depth of the input. For every well-formed
  input of depth \<open>d\<close> and size \<open>n\<close> the output has at most \<open>4 * 2^d * n\<close> nodes for
  \<^verbatim>\<open>to_not_and_or\<close>, \<open>16 * 2^d * n\<close> for \<^verbatim>\<open>to_not_and\<close>, \<open>12 * 2^d * n\<close> for
  \<^verbatim>\<open>to_implies_not\<close>, \<open>20 * 2^d * n\<close> for \<^verbatim>\<open>to_implies_false\<close> and \<open>2^(10*d+11) * n\<close> for
  \<^verbatim>\<open>to_nand\<close>. No factor independent of the depth exists: on the chain of \<open>d\<close>
  exclusive-ors, of size \<open>2*d+1\<close>, \<^verbatim>\<open>to_not_and_or\<close> returns \<open>8 * 2^d - 7\<close> nodes.
\<close>

theorem output_size_bounds:
  "(well_formed f \<longrightarrow>
      size_at_most (to_not_and_or f) (4 * 2 ^ depth f * formula_size f) \<and>
      size_at_most (to_not_and f) (16 * 2 ^ depth f * formula_size f) \<and>
      size_at_most (to_implies_not f) (12 * 2 ^ depth f * formula_size f) \<and>
      size_at_most (to_implies_false f) (20 * 2 ^ depth f * formula_size f) \<and>
      size_at_most (to_nand f) (2 ^ (10 * depth f + 11) * formula_size f)) \<and>
   well_formed (xor_chain d) \<and> depth (xor_chain d) = d \<and>
   formula_size (xor_chain d) = 2 * d + 1 \<and>
   output_size (to_not_and_or (xor_chain d)) = Some (8 * 2 ^ d - 7)"
proof (intro conjI impI)
  assume wf: "well_formed f"
  from reducers_return [OF wf] obtain g h k i j where
    g: "to_not_and_or f = Inr g" and wg: "operators_within {''~'', ''&'', ''|''} g"
    and h: "to_not_and f = Inr h" "to_not_and_conv g = Inr h"
    and wh: "operators_within {''~'', ''&''} h"
    and k: "to_nand f = Inr k" "to_nand_conv h = Inr k"
    and i: "to_implies_not f = Inr i" "to_implies_not_conv g = Inr i"
    and j: "to_implies_false f = Inr j" "to_implies_false_conv g = Inr j"
    by blast
  define B :: nat where "B = 2 ^ depth f * formula_size f"
  from nao_size [OF wf g] have sg: "formula_size g \<le> 4 * B" by (simp add: B_def)
  from nao_depth [OF wf g] have dg: "depth g \<le> 3 * depth f + 2" .
  from not_and_conv_size [OF wg h(2)]
  have sh': "formula_size h \<le> 4 * formula_size g" and dh': "depth h \<le> 3 * depth g"
    by simp_all
  from sh' sg have sh: "formula_size h \<le> 16 * B" by simp
  from dh' dg have dh: "depth h \<le> 9 * depth f + 6" by simp
  from implies_not_conv_size [OF wg i(2)] sg have si: "formula_size i \<le> 12 * B" by simp
  from implies_false_conv_size [OF wg j(2)] sg have sj: "formula_size j \<le> 20 * B" by simp
  have "(2::nat) ^ depth h \<le> 2 ^ (9 * depth f + 6)"
    using dh by (intro power_increasing) simp_all
  then have "2 ^ depth h * formula_size h \<le> 2 ^ (9 * depth f + 6) * (16 * B)"
    using sh by (rule mult_le_mono)
  with nand_conv_size [OF wh k(2)]
  have "formula_size k \<le> 2 * (2 ^ (9 * depth f + 6) * (16 * B))" by simp
  also have "\<dots> = 2 ^ (1 + (9 * depth f + 6) + 4 + depth f) * formula_size f"
    by (simp only: power_add B_def) simp
  also have "1 + (9 * depth f + 6) + 4 + depth f = 10 * depth f + 11" by simp
  finally have sk: "formula_size k \<le> 2 ^ (10 * depth f + 11) * formula_size f" .
  from sg show "size_at_most (to_not_and_or f) (4 * 2 ^ depth f * formula_size f)"
    by (simp add: size_at_most_def g B_def)
  from sh show "size_at_most (to_not_and f) (16 * 2 ^ depth f * formula_size f)"
    by (simp add: size_at_most_def h B_def)
  from si show "size_at_most (to_implies_not f) (12 * 2 ^ depth f * formula_size f)"
    by (simp add: size_at_most_def i B_def)
  from sj show "size_at_most (to_implies_false f) (20 * 2 ^ depth f * formula_size f)"
    by (simp add: size_at_most_def j B_def)
  from sk show "size_at_most (to_nand f) (2 ^ (10 * depth f + 11) * formula_size f)"
    by (simp add: size_at_most_def k)
next
  show "well_formed (xor_chain d)" "depth (xor_chain d) = d"
    "formula_size (xor_chain d) = 2 * d + 1"
    using xor_chain_shape [of d] by simp_all
next
  from xor_chain_size [of d] obtain g where g: "to_not_and_or (xor_chain d) = Inr g"
    and s: "formula_size g + 7 = 8 * 2 ^ d"
    by blast
  from s have "formula_size g = 8 * 2 ^ d - 7" by simp
  with g show "output_size (to_not_and_or (xor_chain d)) = Some (8 * 2 ^ d - 7)"
    by (simp add: output_size_def)
qed

theorem output_size_bounds_witness:
  "well_formed (Binary ''+'' (Leaf ''q'') (Leaf ''T'')) \<and>
   size_at_most (to_not_and_or (Binary ''+'' (Leaf ''q'') (Leaf ''T''))) 24 \<and>
   size_at_most (to_not_and (Binary ''+'' (Leaf ''q'') (Leaf ''T''))) 96 \<and>
   size_at_most (to_implies_not (Binary ''+'' (Leaf ''q'') (Leaf ''T''))) 72 \<and>
   size_at_most (to_implies_false (Binary ''+'' (Leaf ''q'') (Leaf ''T''))) 120 \<and>
   size_at_most (to_nand (Binary ''+'' (Leaf ''q'') (Leaf ''T''))) (2 ^ 21 * 3) \<and>
   well_formed (xor_chain 10) \<and> depth (xor_chain 10) = 10 \<and>
   formula_size (xor_chain 10) = 21 \<and>
   output_size (to_not_and_or (xor_chain 10)) = Some 8185"
proof -
  have wf: "well_formed (Binary ''+'' (Leaf ''q'') (Leaf ''T''))"
    by (simp add: symbol_eval)
  have d: "depth (Binary ''+'' (Leaf ''q'') (Leaf ''T'')) = 1"
    "formula_size (Binary ''+'' (Leaf ''q'') (Leaf ''T'')) = 3"
    by simp_all
  note t1 = output_size_bounds [of "Binary ''+'' (Leaf ''q'') (Leaf ''T'')" 10,
      THEN conjunct1, rule_format, OF wf, unfolded d]
  note t2 = output_size_bounds [of "Binary ''+'' (Leaf ''q'') (Leaf ''T'')" 10,
      THEN conjunct2]
  from wf t1 t2 show ?thesis by simp
qed

text \<open>
  C5. The claim that \<^verbatim>\<open>to_implies_false\<close> returns exactly \<^verbatim>\<open>(F->F)\<close> on the input \<^verbatim>\<open>T\<close> does
  not hold: the base reducer has already replaced \<^verbatim>\<open>T\<close> by \<^verbatim>\<open>(p|~p)\<close> when the nested
  function runs.
\<close>

theorem to_implies_false_T_is_not_F_implies_F:
  "to_implies_false (Leaf ''T'') \<noteq> Inr (Binary ''->'' (Leaf ''F'') (Leaf ''F''))"
  by (simp add: to_implies_false_def to_not_and_or_Leaf to_implies_false_conv_Leaf
      to_implies_false_conv_Unary to_implies_false_conv_Binary known_symbols is_variable_p
      constant_not_variable)

text \<open>
  C5, as amended. On the input \<^verbatim>\<open>T\<close>, \<^verbatim>\<open>to_implies_false\<close> returns exactly
  \<^verbatim>\<open>((p->F)->(p->F))\<close>, which is true under every value of \<^verbatim>\<open>p\<close>, as \<^verbatim>\<open>T\<close> and \<^verbatim>\<open>(F->F)\<close>
  are. The rewriting of \<^verbatim>\<open>T\<close> into \<^verbatim>\<open>(F->F)\<close> is what the nested function alone does on a
  constant \<^verbatim>\<open>T\<close>.
\<close>

theorem to_implies_false_T:
  "to_implies_false (Leaf ''T'') =
     Inr (Binary ''->'' (Binary ''->'' (Leaf ''p'') (Leaf ''F''))
                        (Binary ''->'' (Leaf ''p'') (Leaf ''F''))) \<and>
   (\<forall>m b. evaluate (Binary ''->'' (Binary ''->'' (Leaf ''p'') (Leaf ''F''))
                                    (Binary ''->'' (Leaf ''p'') (Leaf ''F''))) (m(''p'' \<mapsto> b))
            = Some True \<and>
          evaluate (Binary ''->'' (Leaf ''F'') (Leaf ''F'')) (m(''p'' \<mapsto> b)) = Some True \<and>
          evaluate (Leaf ''T'') (m(''p'' \<mapsto> b)) = Some True) \<and>
   to_implies_false_conv (Leaf ''T'') = Inr (Binary ''->'' (Leaf ''F'') (Leaf ''F''))"
  by (simp add: to_implies_false_def to_not_and_or_Leaf to_implies_false_conv_Leaf
      to_implies_false_conv_Unary to_implies_false_conv_Binary known_symbols is_variable_p
      constant_not_variable binary_truth_def)

text \<open>
  C6. A tree that is already within the operator set of a reducer is mapped by that
  reducer to a tree with the same truth table. For the four sets without constants the
  two trees have the same value under every model; for \<^verbatim>\<open>to_implies_false\<close>, whose set
  contains \<^verbatim>\<open>F\<close>, under every model that gives the placeholder \<^verbatim>\<open>p\<close> a value.
\<close>

theorem reducers_on_already_reduced_input:
  "(operators_within {''~'', ''&'', ''|''} f \<longrightarrow>
      (\<exists>g. to_not_and_or f = Inr g \<and> (\<forall>m. evaluate g m = evaluate f m))) \<and>
   (operators_within {''~'', ''&''} f \<longrightarrow>
      (\<exists>h. to_not_and f = Inr h \<and> (\<forall>m. evaluate h m = evaluate f m))) \<and>
   (operators_within {''-&''} f \<longrightarrow>
      (\<exists>k. to_nand f = Inr k \<and> (\<forall>m. evaluate k m = evaluate f m))) \<and>
   (operators_within {''->'', ''~''} f \<longrightarrow>
      (\<exists>i. to_implies_not f = Inr i \<and> (\<forall>m. evaluate i m = evaluate f m))) \<and>
   (operators_within {''->'', ''F''} f \<longrightarrow>
      (\<exists>j. to_implies_false f = Inr j \<and>
           (\<forall>m. ''p'' \<in> dom m \<longrightarrow> evaluate j m = evaluate f m)))"
proof (intro conjI impI)
  assume w: "operators_within {''~'', ''&'', ''|''} f"
  then have "\<not> contains_constant f" by (rule within_no_constant) simp_all
  with reducers_sem_general [OF within_well_formed [OF w]]
  show "\<exists>g. to_not_and_or f = Inr g \<and> (\<forall>m. evaluate g m = evaluate f m)" by auto
next
  assume w: "operators_within {''~'', ''&''} f"
  then have "\<not> contains_constant f" by (rule within_no_constant) simp_all
  with reducers_sem_general [OF within_well_formed [OF w]]
  show "\<exists>h. to_not_and f = Inr h \<and> (\<forall>m. evaluate h m = evaluate f m)" by auto
next
  assume w: "operators_within {''-&''} f"
  then have "\<not> contains_constant f" by (rule within_no_constant) simp_all
  with reducers_sem_general [OF within_well_formed [OF w]]
  show "\<exists>k. to_nand f = Inr k \<and> (\<forall>m. evaluate k m = evaluate f m)" by auto
next
  assume w: "operators_within {''->'', ''~''} f"
  then have "\<not> contains_constant f" by (rule within_no_constant) simp_all
  with reducers_sem_general [OF within_well_formed [OF w]]
  show "\<exists>i. to_implies_not f = Inr i \<and> (\<forall>m. evaluate i m = evaluate f m)" by auto
next
  assume w: "operators_within {''->'', ''F''} f"
  from reducers_sem_general [OF within_well_formed [OF w]]
  show "\<exists>j. to_implies_false f = Inr j \<and>
    (\<forall>m. ''p'' \<in> dom m \<longrightarrow> evaluate j m = evaluate f m)" by auto
qed

theorem reducers_on_already_reduced_input_witness:
  "operators_within {''~'', ''&'', ''|''} (Binary ''|'' (Leaf ''q'') (Unary ''~'' (Leaf ''r''))) \<and>
   (\<exists>g. to_not_and_or (Binary ''|'' (Leaf ''q'') (Unary ''~'' (Leaf ''r''))) = Inr g \<and>
        evaluate g [''q'' \<mapsto> False, ''r'' \<mapsto> True] = Some False) \<and>
   operators_within {''~'', ''&''} (Binary ''&'' (Leaf ''q'') (Unary ''~'' (Leaf ''r''))) \<and>
   (\<exists>g. to_not_and (Binary ''&'' (Leaf ''q'') (Unary ''~'' (Leaf ''r''))) = Inr g \<and>
        evaluate g [''q'' \<mapsto> True, ''r'' \<mapsto> False] = Some True) \<and>
   operators_within {''-&''} (Binary ''-&'' (Leaf ''q'') (Leaf ''r'')) \<and>
   (\<exists>g. to_nand (Binary ''-&'' (Leaf ''q'') (Leaf ''r'')) = Inr g \<and>
        evaluate g [''q'' \<mapsto> True, ''r'' \<mapsto> True] = Some False) \<and>
   operators_within {''->'', ''~''} (Binary ''->'' (Leaf ''q'') (Unary ''~'' (Leaf ''r''))) \<and>
   (\<exists>g. to_implies_not (Binary ''->'' (Leaf ''q'') (Unary ''~'' (Leaf ''r''))) = Inr g \<and>
        evaluate g [''q'' \<mapsto> True, ''r'' \<mapsto> True] = Some False) \<and>
   operators_within {''->'', ''F''} (Binary ''->'' (Leaf ''q'') (Leaf ''F'')) \<and>
   (\<exists>g. to_implies_false (Binary ''->'' (Leaf ''q'') (Leaf ''F'')) = Inr g \<and>
        evaluate g [''q'' \<mapsto> True, ''p'' \<mapsto> True] = Some False)"
proof -
  have w1: "operators_within {''~'', ''&'', ''|''} (Binary ''|'' (Leaf ''q'') (Unary ''~'' (Leaf ''r'')))"
    by (simp add: symbol_eval)
  have e1: "evaluate (Binary ''|'' (Leaf ''q'') (Unary ''~'' (Leaf ''r''))) [''q'' \<mapsto> False, ''r'' \<mapsto> True] = Some False"
    by (simp add: symbol_eval binary_truth_def)
  from reducers_on_already_reduced_input [of "Binary ''|'' (Leaf ''q'') (Unary ''~'' (Leaf ''r''))", THEN conjunct1, rule_format, OF w1]
  obtain g1 where g1: "to_not_and_or (Binary ''|'' (Leaf ''q'') (Unary ''~'' (Leaf ''r''))) = Inr g1"
    "evaluate g1 [''q'' \<mapsto> False, ''r'' \<mapsto> True] = Some False"
    using e1 by auto
  have w2: "operators_within {''~'', ''&''} (Binary ''&'' (Leaf ''q'') (Unary ''~'' (Leaf ''r'')))"
    by (simp add: symbol_eval)
  have e2: "evaluate (Binary ''&'' (Leaf ''q'') (Unary ''~'' (Leaf ''r''))) [''q'' \<mapsto> True, ''r'' \<mapsto> False] = Some True"
    by (simp add: symbol_eval binary_truth_def)
  from reducers_on_already_reduced_input [of "Binary ''&'' (Leaf ''q'') (Unary ''~'' (Leaf ''r''))", THEN conjunct2, THEN conjunct1, rule_format, OF w2]
  obtain g2 where g2: "to_not_and (Binary ''&'' (Leaf ''q'') (Unary ''~'' (Leaf ''r''))) = Inr g2"
    "evaluate g2 [''q'' \<mapsto> True, ''r'' \<mapsto> False] = Some True"
    using e2 by auto
  have w3: "operators_within {''-&''} (Binary ''-&'' (Leaf ''q'') (Leaf ''r''))"
    by (simp add: symbol_eval)
  have e3: "evaluate (Binary ''-&'' (Leaf ''q'') (Leaf ''r'')) [''q'' \<mapsto> True, ''r'' \<mapsto> True] = Some False"
    by (simp add: symbol_eval binary_truth_def)
  from reducers_on_already_reduced_input [of "Binary ''-&'' (Leaf ''q'') (Leaf ''r'')", THEN conjunct2, THEN conjunct2, THEN conjunct1, rule_format, OF w3]
  obtain g3 where g3: "to_nand (Binary ''-&'' (Leaf ''q'') (Leaf ''r'')) = Inr g3"
    "evaluate g3 [''q'' \<mapsto> True, ''r'' \<mapsto> True] = Some False"
    using e3 by auto
  have w4: "operators_within {''->'', ''~''} (Binary ''->'' (Leaf ''q'') (Unary ''~'' (Leaf ''r'')))"
    by (simp add: symbol_eval)
  have e4: "evaluate (Binary ''->'' (Leaf ''q'') (Unary ''~'' (Leaf ''r''))) [''q'' \<mapsto> True, ''r'' \<mapsto> True] = Some False"
    by (simp add: symbol_eval binary_truth_def)
  from reducers_on_already_reduced_input [of "Binary ''->'' (Leaf ''q'') (Unary ''~'' (Leaf ''r''))", THEN conjunct2, THEN conjunct2, THEN conjunct2, THEN conjunct1, rule_format, OF w4]
  obtain g4 where g4: "to_implies_not (Binary ''->'' (Leaf ''q'') (Unary ''~'' (Leaf ''r''))) = Inr g4"
    "evaluate g4 [''q'' \<mapsto> True, ''r'' \<mapsto> True] = Some False"
    using e4 by auto
  have w5: "operators_within {''->'', ''F''} (Binary ''->'' (Leaf ''q'') (Leaf ''F''))"
    by (simp add: symbol_eval)
  have e5: "evaluate (Binary ''->'' (Leaf ''q'') (Leaf ''F'')) [''q'' \<mapsto> True, ''p'' \<mapsto> True] = Some False"
    by (simp add: symbol_eval binary_truth_def)
  from reducers_on_already_reduced_input [of "Binary ''->'' (Leaf ''q'') (Leaf ''F'')", THEN conjunct2, THEN conjunct2, THEN conjunct2, THEN conjunct2, rule_format, OF w5]
  obtain g5 where g5: "to_implies_false (Binary ''->'' (Leaf ''q'') (Leaf ''F'')) = Inr g5"
    "evaluate g5 [''q'' \<mapsto> True, ''p'' \<mapsto> True] = Some False"
    using e5 by auto
  from w1 g1 w2 g2 w3 g3 w4 g4 w5 g5 show ?thesis by blast
qed

text \<open>
  C7. On the input \<^verbatim>\<open>(p&q)\<close>, \<^verbatim>\<open>to_nand\<close> returns the tree \<^verbatim>\<open>((p-&q)-&(p-&q))\<close> itself, so
  the result has the truth table of that tree under every model; on the four assignments
  of \<^verbatim>\<open>p\<close> and \<^verbatim>\<open>q\<close> it is the conjunction.
\<close>

theorem to_nand_of_conjunction:
  "to_nand (Binary ''&'' (Leaf ''p'') (Leaf ''q'')) =
     Inr (Binary ''-&'' (Binary ''-&'' (Leaf ''p'') (Leaf ''q''))
                        (Binary ''-&'' (Leaf ''p'') (Leaf ''q''))) \<and>
   (\<forall>m. evaluate_result (to_nand (Binary ''&'' (Leaf ''p'') (Leaf ''q''))) m =
          evaluate (Binary ''-&'' (Binary ''-&'' (Leaf ''p'') (Leaf ''q''))
                                  (Binary ''-&'' (Leaf ''p'') (Leaf ''q''))) m) \<and>
   (\<forall>a b. evaluate_result (to_nand (Binary ''&'' (Leaf ''p'') (Leaf ''q'')))
            [''p'' \<mapsto> a, ''q'' \<mapsto> b] = Some (a \<and> b))"
proof -
  have q: "is_variable ''q''" by (simp add: symbol_eval)
  have r: "to_nand (Binary ''&'' (Leaf ''p'') (Leaf ''q'')) =
     Inr (Binary ''-&'' (Binary ''-&'' (Leaf ''p'') (Leaf ''q''))
                        (Binary ''-&'' (Leaf ''p'') (Leaf ''q'')))"
    by (simp add: to_nand_def to_not_and_def to_not_and_or_Leaf to_not_and_or_Binary
        to_not_and_conv_Leaf to_not_and_conv_Binary to_nand_conv_Leaf to_nand_conv_Binary
        known_symbols is_variable_p q binary_not_other)
  show ?thesis
    by (simp add: r evaluate_result_def known_symbols is_variable_p q constant_not_variable
        binary_truth_def symbol_eval(4))
qed

text \<open>
  C8. On every well-formed input, with or without constants, the outputs of
  \<^verbatim>\<open>to_not_and\<close>, \<^verbatim>\<open>to_nand\<close> and \<^verbatim>\<open>to_implies_not\<close> contain no constant node. The tree
  that each nested function receives (the output of \<^verbatim>\<open>to_not_and_or\<close>, and for
  \<^verbatim>\<open>to_nand\<close> the output of \<^verbatim>\<open>to_not_and\<close>) contains no constant node either, so the
  branch \<^verbatim>\<open>if is_constant(g.root)\<close> of these three nested functions is never taken.
\<close>

theorem no_constants_after_base_reducer:
  assumes "well_formed f"
  shows "\<exists>g h k i.
    to_not_and_or f = Inr g \<and> \<not> contains_constant g \<and>
    to_not_and f = Inr h \<and> to_not_and_conv g = Inr h \<and> \<not> contains_constant h \<and>
    to_nand f = Inr k \<and> to_nand_conv h = Inr k \<and> \<not> contains_constant k \<and>
    to_implies_not f = Inr i \<and> to_implies_not_conv g = Inr i \<and> \<not> contains_constant i"
proof -
  from reducers_return [OF assms] obtain g h k i where
    r: "to_not_and_or f = Inr g" "to_not_and f = Inr h" "to_not_and_conv g = Inr h"
       "to_nand f = Inr k" "to_nand_conv h = Inr k"
       "to_implies_not f = Inr i" "to_implies_not_conv g = Inr i"
    and w: "operators_within {''~'', ''&'', ''|''} g" "operators_within {''~'', ''&''} h"
       "operators_within {''-&''} k" "operators_within {''->'', ''~''} i"
    by blast
  have "\<not> contains_constant g" using w(1) by (rule within_no_constant) simp_all
  moreover have "\<not> contains_constant h" using w(2) by (rule within_no_constant) simp_all
  moreover have "\<not> contains_constant k" using w(3) by (rule within_no_constant) simp_all
  moreover have "\<not> contains_constant i" using w(4) by (rule within_no_constant) simp_all
  ultimately show ?thesis using r by blast
qed

theorem no_constants_after_base_reducer_witness:
  "well_formed (Binary ''->'' (Leaf ''T'') (Unary ''~'' (Leaf ''F''))) \<and>
   contains_constant (Binary ''->'' (Leaf ''T'') (Unary ''~'' (Leaf ''F''))) \<and>
   (\<exists>g h k i.
    to_not_and_or (Binary ''->'' (Leaf ''T'') (Unary ''~'' (Leaf ''F''))) = Inr g \<and>
      \<not> contains_constant g \<and>
    to_not_and (Binary ''->'' (Leaf ''T'') (Unary ''~'' (Leaf ''F''))) = Inr h \<and>
      to_not_and_conv g = Inr h \<and> \<not> contains_constant h \<and>
    to_nand (Binary ''->'' (Leaf ''T'') (Unary ''~'' (Leaf ''F''))) = Inr k \<and>
      to_nand_conv h = Inr k \<and> \<not> contains_constant k \<and>
    to_implies_not (Binary ''->'' (Leaf ''T'') (Unary ''~'' (Leaf ''F''))) = Inr i \<and>
      to_implies_not_conv g = Inr i \<and> \<not> contains_constant i)"
proof -
  have wf: "well_formed (Binary ''->'' (Leaf ''T'') (Unary ''~'' (Leaf ''F'')))"
    by (simp add: symbol_eval)
  have cc: "contains_constant (Binary ''->'' (Leaf ''T'') (Unary ''~'' (Leaf ''F'')))"
    by (simp add: symbol_eval)
  show ?thesis using wf cc no_constants_after_base_reducer [OF wf] by blast
qed

text \<open>
  C9. The placeholder is the variable \<^verbatim>\<open>p\<close>: \<^verbatim>\<open>T\<close> becomes \<^verbatim>\<open>(p|~p)\<close> and \<^verbatim>\<open>F\<close> becomes
  \<^verbatim>\<open>(p&~p)\<close>, and the base reducer introduces no other variable. Under every model that
  gives a value to \<^verbatim>\<open>p\<close> and to the variables of \<open>f\<close>, whether or not \<^verbatim>\<open>p\<close> is one of
  them, the two replacements are true and false and each reducer's output has the truth
  value of \<open>f\<close>.
\<close>

theorem placeholder_p_capture_is_harmless:
  assumes "well_formed f" and "variables f \<subseteq> dom m" and "''p'' \<in> dom m"
  shows "\<exists>g h k i j.
    to_not_and_or f = Inr g \<and> evaluate g m = evaluate f m \<and>
    variables g \<subseteq> insert ''p'' (variables f) \<and>
    to_not_and f = Inr h \<and> evaluate h m = evaluate f m \<and>
    to_nand f = Inr k \<and> evaluate k m = evaluate f m \<and>
    to_implies_not f = Inr i \<and> evaluate i m = evaluate f m \<and>
    to_implies_false f = Inr j \<and> evaluate j m = evaluate f m \<and>
    to_not_and_or (Leaf ''T'') = Inr (Binary ''|'' (Leaf ''p'') (Unary ''~'' (Leaf ''p''))) \<and>
    to_not_and_or (Leaf ''F'') = Inr (Binary ''&'' (Leaf ''p'') (Unary ''~'' (Leaf ''p''))) \<and>
    evaluate (Binary ''|'' (Leaf ''p'') (Unary ''~'' (Leaf ''p''))) m = Some True \<and>
    evaluate (Binary ''&'' (Leaf ''p'') (Unary ''~'' (Leaf ''p''))) m = Some False"
proof -
  from reducers_return [OF assms(1)] obtain g h k i j where
    r: "to_not_and_or f = Inr g" "to_not_and f = Inr h" "to_nand f = Inr k"
       "to_implies_not f = Inr i" "to_implies_false f = Inr j"
    and e: "\<forall>m. evaluate h m = evaluate g m \<and> evaluate k m = evaluate g m \<and>
         evaluate i m = evaluate g m \<and> evaluate j m = evaluate g m"
    by blast
  have "\<forall>v\<in>variables f. m v = m v" by simp
  with assms r(1) have s: "evaluate g m = evaluate f m \<and> evaluate f m \<noteq> None"
    by (intro nao_sem)
  have v: "variables g \<subseteq> insert ''p'' (variables f)"
    using nao_variables [OF assms(1) r(1)] by auto
  from assms(3) obtain b where b: "m ''p'' = Some b" by auto
  have c: "to_not_and_or (Leaf ''T'') = Inr (Binary ''|'' (Leaf ''p'') (Unary ''~'' (Leaf ''p'')))"
    "to_not_and_or (Leaf ''F'') = Inr (Binary ''&'' (Leaf ''p'') (Unary ''~'' (Leaf ''p'')))"
    "evaluate (Binary ''|'' (Leaf ''p'') (Unary ''~'' (Leaf ''p''))) m = Some True"
    "evaluate (Binary ''&'' (Leaf ''p'') (Unary ''~'' (Leaf ''p''))) m = Some False"
    by (simp_all add: to_not_and_or_Leaf known_symbols is_variable_p constant_not_variable
        binary_truth_def b)
  from r e s v c show ?thesis by simp
qed

theorem placeholder_p_capture_is_harmless_witness:
  "well_formed (Binary ''&'' (Leaf ''p'') (Leaf ''T'')) \<and>
   variables (Binary ''&'' (Leaf ''p'') (Leaf ''T'')) \<subseteq> dom [''p'' \<mapsto> False] \<and>
   ''p'' \<in> variables (Binary ''&'' (Leaf ''p'') (Leaf ''T'')) \<and>
   ''p'' \<in> dom [''p'' \<mapsto> False] \<and>
   (\<exists>g h k i j.
    to_not_and_or (Binary ''&'' (Leaf ''p'') (Leaf ''T'')) = Inr g \<and> evaluate g [''p'' \<mapsto> False] = Some False \<and>
    variables g \<subseteq> insert ''p'' (variables (Binary ''&'' (Leaf ''p'') (Leaf ''T''))) \<and>
    to_not_and (Binary ''&'' (Leaf ''p'') (Leaf ''T'')) = Inr h \<and> evaluate h [''p'' \<mapsto> False] = Some False \<and>
    to_nand (Binary ''&'' (Leaf ''p'') (Leaf ''T'')) = Inr k \<and> evaluate k [''p'' \<mapsto> False] = Some False \<and>
    to_implies_not (Binary ''&'' (Leaf ''p'') (Leaf ''T'')) = Inr i \<and> evaluate i [''p'' \<mapsto> False] = Some False \<and>
    to_implies_false (Binary ''&'' (Leaf ''p'') (Leaf ''T'')) = Inr j \<and> evaluate j [''p'' \<mapsto> False] = Some False)"
proof -
  have wf: "well_formed (Binary ''&'' (Leaf ''p'') (Leaf ''T''))"
    by (simp add: symbol_eval)
  have vs: "variables (Binary ''&'' (Leaf ''p'') (Leaf ''T'')) \<subseteq> dom [''p'' \<mapsto> False]"
    by (simp add: symbol_eval)
  have pv: "''p'' \<in> variables (Binary ''&'' (Leaf ''p'') (Leaf ''T''))"
    by (simp add: symbol_eval)
  have pd: "''p'' \<in> dom [''p'' \<mapsto> False]"
    by simp
  have ev: "evaluate (Binary ''&'' (Leaf ''p'') (Leaf ''T'')) [''p'' \<mapsto> False] = Some False"
    by (simp add: symbol_eval binary_truth_def)
  note t = placeholder_p_capture_is_harmless [OF wf vs pd, unfolded ev]
  show ?thesis using wf vs pv pd t by blast
qed

text \<open>
  C10. A formula built from variables, \<^verbatim>\<open>~\<close>, \<^verbatim>\<open>&\<close> and \<^verbatim>\<open>|\<close> only is returned by
  \<^verbatim>\<open>to_not_and_or\<close> as it is. Hence, on every well-formed input, applying
  \<^verbatim>\<open>to_not_and_or\<close> to its own output gives that output again.
\<close>

theorem to_not_and_or_fixes_its_own_output:
  "(operators_within {''~'', ''&'', ''|''} f \<longrightarrow> to_not_and_or f = Inr f) \<and>
   (well_formed f \<longrightarrow>
      (\<exists>g. to_not_and_or f = Inr g \<and> to_not_and_or g = Inr g) \<and>
      (case to_not_and_or f of Inl e \<Rightarrow> Inl e | Inr g \<Rightarrow> to_not_and_or g) = to_not_and_or f)"
proof (intro conjI impI)
  assume "operators_within {''~'', ''&'', ''|''} f"
  then show "to_not_and_or f = Inr f" by (rule nao_fixed)
next
  assume wf: "well_formed f"
  then obtain g where g: "to_not_and_or f = Inr g" using nao_total by blast
  from wf g have "operators_within {''~'', ''&'', ''|''} g" by (rule nao_within)
  then have gg: "to_not_and_or g = Inr g" by (rule nao_fixed)
  from g gg show "\<exists>g. to_not_and_or f = Inr g \<and> to_not_and_or g = Inr g" by blast
  from g gg show "(case to_not_and_or f of Inl e \<Rightarrow> Inl e | Inr g \<Rightarrow> to_not_and_or g) =
    to_not_and_or f" by simp
qed

theorem to_not_and_or_fixes_its_own_output_witness:
  "operators_within {''~'', ''&'', ''|''}
     (Binary ''|'' (Unary ''~'' (Leaf ''q'')) (Binary ''&'' (Leaf ''q'') (Leaf ''r''))) \<and>
   to_not_and_or (Binary ''|'' (Unary ''~'' (Leaf ''q'')) (Binary ''&'' (Leaf ''q'') (Leaf ''r'')))
     = Inr (Binary ''|'' (Unary ''~'' (Leaf ''q'')) (Binary ''&'' (Leaf ''q'') (Leaf ''r''))) \<and>
   well_formed (Binary ''+'' (Leaf ''q'') (Leaf ''T'')) \<and>
   (\<exists>g. to_not_and_or (Binary ''+'' (Leaf ''q'') (Leaf ''T'')) = Inr g \<and>
        to_not_and_or g = Inr g) \<and>
   (case to_not_and_or (Binary ''+'' (Leaf ''q'') (Leaf ''T'')) of Inl e \<Rightarrow> Inl e
    | Inr g \<Rightarrow> to_not_and_or g) = to_not_and_or (Binary ''+'' (Leaf ''q'') (Leaf ''T''))"
proof -
  have w: "operators_within {''~'', ''&'', ''|''}
     (Binary ''|'' (Unary ''~'' (Leaf ''q'')) (Binary ''&'' (Leaf ''q'') (Leaf ''r'')))"
    by (simp add: symbol_eval)
  have wf: "well_formed (Binary ''+'' (Leaf ''q'') (Leaf ''T''))"
    by (simp add: symbol_eval)
  note t1 = to_not_and_or_fixes_its_own_output
    [of "Binary ''|'' (Unary ''~'' (Leaf ''q'')) (Binary ''&'' (Leaf ''q'') (Leaf ''r''))",
      THEN conjunct1, rule_format, OF w]
  note t2 = to_not_and_or_fixes_its_own_output
    [of "Binary ''+'' (Leaf ''q'') (Leaf ''T'')", THEN conjunct2, rule_format, OF wf]
  from w wf t1 t2 show ?thesis by blast
qed

end
